theory Spec2Isabelle
  imports Main
begin

section \<open>Go values\<close>

text \<open>
  A Go \<^verbatim>\<open>[]byte\<close> and a Go \<^verbatim>\<open>string\<close> are finite sequences of bytes, and the
  conversions \<^verbatim>\<open>[]byte(s)\<close> and \<^verbatim>\<open>string(b)\<close> keep the bytes. Both are lists of
  \<^typ>\<open>char\<close> here (a HOL \<^typ>\<open>char\<close> is one byte). Where the source tells a nil
  slice from an empty one, the slice is a \<^typ>\<open>string option\<close> and nil is
  \<^term>\<open>None\<close>.
\<close>

type_synonym bytes = string

definition len :: "bytes option \<Rightarrow> nat" where
  "len b = (case b of None \<Rightarrow> 0 | Some xs \<Rightarrow> length xs)"

text \<open>\<^verbatim>\<open>b[:n]\<close> and \<^verbatim>\<open>b[n:]\<close> for \<open>n \<le> len b\<close>; a slice of nil is nil.\<close>

definition slice_to :: "bytes option \<Rightarrow> nat \<Rightarrow> bytes option" where
  "slice_to b n = map_option (take n) b"

definition slice_from :: "bytes option \<Rightarrow> nat \<Rightarrow> bytes option" where
  "slice_from b n = map_option (drop n) b"

text \<open>\<^verbatim>\<open>append(dst, src...)\<close> where only the bytes of the result are read.\<close>

definition elems :: "bytes option \<Rightarrow> bytes" where
  "elems b = (case b of None \<Rightarrow> [] | Some xs \<Rightarrow> xs)"

text \<open>
  A Go \<^verbatim>\<open>error\<close> is nil (\<^term>\<open>None\<close>) or a value. The values are the ones
  \<^verbatim>\<open>github.com/pkg/errors\<close> builds: a new error with a message, and an error
  wrapped or annotated with a message. A formatted message is its format string. Where
  the source wraps an error under \<^verbatim>\<open>err != nil\<close> the constructor is applied;
  \<^verbatim>\<open>errors.WithMessage\<close> on an error that may be nil returns nil for nil.
\<close>

datatype error = Errorf string | Wrapped error string | WithMsg error string

definition errors_WithMessage :: "error option \<Rightarrow> string \<Rightarrow> error option" where
  "errors_WithMessage err msg = map_option (\<lambda>e. WithMsg e msg) err"

text \<open>A call either panics or returns.\<close>

datatype panic = PanicMsg string | PanicFmt string error | PanicErr error | NilDereference

datatype 'a outcome = Panic panic | Return 'a

text \<open>\<^verbatim>\<open>strconv.Itoa\<close>: the decimal digits of an integer.\<close>

definition digit :: "nat \<Rightarrow> char" where
  "digit d = ''0123456789'' ! d"

function digits :: "nat \<Rightarrow> string" where
  "digits n = (if n < 10 then [digit n] else digits (n div 10) @ [digit (n mod 10)])"
  by pat_completeness auto
termination
  by (relation "measure (\<lambda>n. n)") auto

definition Itoa :: "int \<Rightarrow> string" where
  "Itoa i = (if i < 0 then CHR ''-'' # digits (nat (- i)) else digits (nat i))"

section \<open>Protocol messages\<close>

text \<open>
  The messages of \<^verbatim>\<open>fabric-protos-go/msp\<close> that the package reads and writes, with the
  fields it uses. A field is named after the Go field, prefixed by its message. The
  role enumeration has the two values that the package names.
\<close>

datatype MSPRole_MSPRoleType = MSPRole_MEMBER | MSPRole_ADMIN

record MSPRole =
  role_MspIdentifier :: string
  role_Role :: MSPRole_MSPRoleType

record OrganizationUnit =
  ou_MspIdentifier :: string
  ou_OrganizationalUnitIdentifier :: string
  ou_CertifiersIdentifier :: bytes

record SerializedIdentity =
  si_Mspid :: string
  si_IdBytes :: bytes

record SerializedIdemixIdentity =
  ser_NymX :: "bytes option"
  ser_NymY :: "bytes option"
  ser_Ou :: bytes
  ser_Role :: bytes
  ser_Proof :: bytes

record IdemixMSPSignerConfig =
  signer_Cred :: bytes
  signer_Sk :: bytes
  signer_OrganizationalUnitIdentifier :: string
  signer_Role :: int
  signer_EnrollmentId :: string
  signer_CredentialRevocationInformation :: bytes

record IdemixMSPConfig =
  conf_Name :: string
  conf_Ipk :: bytes
  conf_Signer :: "IdemixMSPSignerConfig option"
  conf_RevocationPk :: bytes

record MSPConfig =
  mspconf_Config :: bytes

record IdentityIdentifier =
  ii_Mspid :: string
  ii_Id :: string

section \<open>The credential cryptography engine\<close>

text \<open>
  \<^verbatim>\<open>bccsp.BCCSP\<close> is an interface, and its keys are values of the interface
  \<^verbatim>\<open>bccsp.Key\<close>. The engine is a record of its operations over a type \<open>'k\<close> of keys
  and a type \<open>'w\<close> of states of everything outside the package (the key store, the
  random source, the registry of signers): an operation takes the state and returns
  its result with the next state. The methods of a key read the key only.
\<close>

datatype IdemixAttributeType = IdemixHiddenAttribute | IdemixBytesAttribute | IdemixIntAttribute

datatype AttributeValue = NoValue | BytesValue bytes | IntValue int

record IdemixAttribute =
  attr_Type :: IdemixAttributeType
  attr_Value :: AttributeValue

datatype KeyImportOpts =
    IdemixNymPublicKeyImportOpts bool
  | IdemixIssuerPublicKeyImportOpts bool "string list"
  | IdemixRevocationPublicKeyImportOpts bool
  | IdemixUserSecretKeyImportOpts bool

datatype 'k KeyDerivOpts = IdemixNymKeyDerivationOpts bool 'k

record 'k IdemixSignerOpts =
  so_Nym :: "'k option"
  so_IssuerPK :: "'k option"
  so_Credential :: bytes
  so_Attributes :: "IdemixAttribute list"
  so_RhIndex :: int
  so_CRI :: bytes
  so_Epoch :: int
  so_RevocationPublicKey :: "'k option"

datatype 'k SignerOpts =
    IdemixNymSignerOpts "'k option" 'k
  | IdemixSignerOpts "'k IdemixSignerOpts"
  | IdemixCredentialSignerOpts 'k "IdemixAttribute list"

text \<open>
  \<open>csp_Sign\<close> returns the signature or the error, and with it what the call left in
  the field \<^verbatim>\<open>Info\<close> of its options. \<open>csp_Verify\<close> returns both of its results, as
  the callers read both.
\<close>

record ('k, 'w) BCCSP =
  csp_KeyImport :: "bytes \<Rightarrow> KeyImportOpts \<Rightarrow> 'w \<Rightarrow> (error + 'k) \<times> 'w"
  csp_KeyDeriv :: "'k \<Rightarrow> 'k KeyDerivOpts \<Rightarrow> 'w \<Rightarrow> (error + 'k) \<times> 'w"
  csp_GetKey :: "bytes \<Rightarrow> 'w \<Rightarrow> (error + 'k) \<times> 'w"
  csp_Sign :: "'k \<Rightarrow> bytes \<Rightarrow> 'k SignerOpts \<Rightarrow> 'w \<Rightarrow> ((error + bytes) \<times> bytes) \<times> 'w"
  csp_Verify :: "'k \<Rightarrow> bytes \<Rightarrow> bytes \<Rightarrow> 'k SignerOpts \<Rightarrow> 'w \<Rightarrow> (bool \<times> error option) \<times> 'w"
  key_Bytes :: "'k \<Rightarrow> error + bytes option"
  key_SKI :: "'k \<Rightarrow> bytes"
  key_PublicKey :: "'k \<Rightarrow> error + 'k"

section \<open>Identities (id.go)\<close>

record ('k, 'w) support =
  name :: string
  ipk :: bytes
  csp :: "('k, 'w) BCCSP"
  issuerPublicKey :: 'k
  revocationPK :: 'k
  epoch :: int

record ('k, 'w) identity =
  NymPublicKey :: 'k
  support :: "('k, 'w) support"
  ident :: IdentityIdentifier
  Role :: MSPRole
  OU :: OrganizationUnit
  associationProof :: bytes

record ('k, 'w) signingIdentity =
  sid_identity :: "('k, 'w) identity"
  Cred :: bytes
  UserKey :: 'k
  NymKey :: 'k
  enrollmentId :: string

record ('k, 'w) deserialized =
  d_id :: "('k, 'w) identity"
  d_NymPublicKey :: 'k
  d_si :: SerializedIdentity
  d_ou :: OrganizationUnit
  d_role :: MSPRole

record AuditInfo =
  IdemixSignatureInfo :: bytes
  Attributes :: "bytes list"

text \<open>The registry of signers, found through the service provider of the node.\<close>

record ('k, 'w) SignerService =
  RegisterSigner :: "bytes \<Rightarrow> ('k, 'w) signingIdentity \<Rightarrow> ('k, 'w) signingIdentity \<Rightarrow> 'w
     \<Rightarrow> error option \<times> 'w"

record ('k, 'w) ServiceProvider =
  GetService :: "'w \<Rightarrow> (error + ('k, 'w) SignerService) \<times> 'w"

text \<open>
  What the package takes from outside the files at hand: \<^verbatim>\<open>proto.Marshal\<close> and
  \<^verbatim>\<open>proto.Unmarshal\<close> at each message type, the role helpers of the package
  (\<^verbatim>\<open>getIdemixRoleFromMSPRole\<close>, \<^verbatim>\<open>checkRole\<close>, \<^verbatim>\<open>ADMIN\<close>), the methods
  \<^verbatim>\<open>Bytes\<close>, \<^verbatim>\<open>FromBytes\<close>, \<^verbatim>\<open>Match\<close> and \<^verbatim>\<open>EnrollmentID\<close> of
  \<^verbatim>\<open>AuditInfo\<close>, \<^verbatim>\<open>view.Identity.UniqueID\<close>, the names of the role enumeration,
  the constructor \<^verbatim>\<open>idemix.New\<close> of the engine over the store of the service
  provider, and the four attribute names of \<^verbatim>\<open>fabric/msp\<close>. They are parameters:
  the functions below take them as their first argument.
\<close>

record ('k, 'w) deps =
  Unmarshal_SerializedIdentity :: "bytes \<Rightarrow> error + SerializedIdentity"
  Unmarshal_SerializedIdemixIdentity :: "bytes \<Rightarrow> error + SerializedIdemixIdentity"
  Unmarshal_OrganizationUnit :: "bytes \<Rightarrow> error + OrganizationUnit"
  Unmarshal_MSPRole :: "bytes \<Rightarrow> error + MSPRole"
  Unmarshal_IdemixMSPConfig :: "bytes \<Rightarrow> error + IdemixMSPConfig"
  Marshal_SerializedIdentity :: "SerializedIdentity \<Rightarrow> error + bytes"
  Marshal_SerializedIdemixIdentity :: "SerializedIdemixIdentity \<Rightarrow> error + bytes"
  Marshal_OrganizationUnit :: "OrganizationUnit \<Rightarrow> error + bytes"
  Marshal_MSPRole :: "MSPRole \<Rightarrow> error + bytes"
  getIdemixRoleFromMSPRole :: "MSPRole \<Rightarrow> int"
  checkRole :: "int \<Rightarrow> int \<Rightarrow> bool"
  ADMIN :: int
  AuditInfo_Bytes :: "AuditInfo \<Rightarrow> error + bytes"
  AuditInfo_FromBytes :: "bytes \<Rightarrow> error + AuditInfo"
  AuditInfo_Match :: "AuditInfo \<Rightarrow> bytes \<Rightarrow> 'w \<Rightarrow> error option \<times> 'w"
  AuditInfo_EnrollmentID :: "AuditInfo \<Rightarrow> string"
  UniqueID :: "bytes \<Rightarrow> string"
  MSPRoleType_String :: "MSPRole_MSPRoleType \<Rightarrow> string"
  idemix_New :: "('k, 'w) ServiceProvider \<Rightarrow> 'w \<Rightarrow> (error + ('k, 'w) BCCSP) \<times> 'w"
  AttributeNames :: "string list"

definition rhIndex :: int where
  "rhIndex = 3"

definition newIdentity ::
  "('k, 'w) support \<Rightarrow> 'k \<Rightarrow> MSPRole \<Rightarrow> OrganizationUnit \<Rightarrow> bytes \<Rightarrow> ('k, 'w) identity outcome"
where
  "newIdentity provider nymPublicKey role ou proof =
     (case key_Bytes (csp provider) nymPublicKey of
        Inl err \<Rightarrow>
          Panic (PanicFmt ''unexpected condition, failed marshalling nym public key [%s]'' err)
      | Inr raw \<Rightarrow>
          Return \<lparr>NymPublicKey = nymPublicKey, support = provider,
                  ident = \<lparr>ii_Mspid = name provider, ii_Id = elems raw\<rparr>,
                  Role = role, OU = ou, associationProof = proof\<rparr>)"

definition Anonymous :: "('k, 'w) identity \<Rightarrow> bool" where
  "Anonymous i = True"

definition GetIdentifier :: "('k, 'w) identity \<Rightarrow> IdentityIdentifier" where
  "GetIdentifier i = ident i"

definition GetMSPIdentifier :: "('k, 'w) identity \<Rightarrow> string" where
  "GetMSPIdentifier i = name (support i)"

text \<open>
  The call of the engine in \<^verbatim>\<open>verifyProof\<close> (the issuer key, the proof, no message,
  and the options with the disclosed attributes), and \<^verbatim>\<open>verifyProof\<close> on its
  answer.
\<close>

definition proofOpts :: "('k, 'w) deps \<Rightarrow> ('k, 'w) identity \<Rightarrow> 'k SignerOpts" where
  "proofOpts x i =
     IdemixSignerOpts
       \<lparr>so_Nym = None, so_IssuerPK = None, so_Credential = [],
        so_Attributes =
          [\<lparr>attr_Type = IdemixBytesAttribute,
            attr_Value = BytesValue (ou_OrganizationalUnitIdentifier (OU i))\<rparr>,
           \<lparr>attr_Type = IdemixIntAttribute,
            attr_Value = IntValue (getIdemixRoleFromMSPRole x (Role i))\<rparr>,
           \<lparr>attr_Type = IdemixHiddenAttribute, attr_Value = NoValue\<rparr>,
           \<lparr>attr_Type = IdemixHiddenAttribute, attr_Value = NoValue\<rparr>],
        so_RhIndex = rhIndex, so_CRI = [], so_Epoch = epoch (support i),
        so_RevocationPublicKey = Some (revocationPK (support i))\<rparr>"

definition engineVerdict ::
  "('k, 'w) deps \<Rightarrow> ('k, 'w) identity \<Rightarrow> 'w \<Rightarrow> (bool \<times> error option) \<times> 'w"
where
  "engineVerdict x i w =
     csp_Verify (csp (support i)) (issuerPublicKey (support i)) (associationProof i) []
       (proofOpts x i) w"

definition verifyProof ::
  "('k, 'w) deps \<Rightarrow> ('k, 'w) identity \<Rightarrow> 'w \<Rightarrow> (error option \<times> 'w) outcome"
where
  "verifyProof x i w =
     (case engineVerdict x i w of
        ((valid, err), w') \<Rightarrow>
          if err = None \<and> \<not> valid
          then Panic (PanicMsg
                 ''unexpected condition, an error should be returned for an invalid signature'')
          else Return (err, w'))"

definition Validate ::
  "('k, 'w) deps \<Rightarrow> ('k, 'w) identity \<Rightarrow> 'w \<Rightarrow> (error option \<times> 'w) outcome"
where
  "Validate x i w =
     (if GetMSPIdentifier i \<noteq> name (support i)
      then Return (Some (Errorf ''the supplied identity does not belong to this msp''), w)
      else verifyProof x i w)"

definition Verify :: "('k, 'w) identity \<Rightarrow> bytes \<Rightarrow> bytes \<Rightarrow> 'w \<Rightarrow> error option \<times> 'w" where
  "Verify i msg sig w =
     (case csp_Verify (csp (support i)) (NymPublicKey i) sig msg
             (IdemixNymSignerOpts None (issuerPublicKey (support i))) w of
        ((valid, err), w') \<Rightarrow> (err, w'))"

definition SatisfiesPrincipal :: "('k, 'w) identity \<Rightarrow> 'p \<Rightarrow> error option outcome" where
  "SatisfiesPrincipal i mspPrincipal = Panic (PanicMsg ''not implemented yet'')"

definition Serialize :: "('k, 'w) deps \<Rightarrow> ('k, 'w) identity \<Rightarrow> error + bytes" where
  "Serialize x i =
     (case key_Bytes (csp (support i)) (NymPublicKey i) of
        Inl err \<Rightarrow> Inl (Wrapped err ''could not serialize nym of identity %s'')
      | Inr raw \<Rightarrow>
     (case Marshal_OrganizationUnit x (OU i) of
        Inl err \<Rightarrow> Inl (Wrapped err ''could not marshal OU of identity %s'')
      | Inr ouBytes \<Rightarrow>
     (case Marshal_MSPRole x (Role i) of
        Inl err \<Rightarrow> Inl (Wrapped err ''could not marshal role of identity %s'')
      | Inr roleBytes \<Rightarrow>
     (case Marshal_SerializedIdemixIdentity x
             \<lparr>ser_NymX = slice_to raw (len raw div 2), ser_NymY = slice_from raw (len raw div 2),
              ser_Ou = ouBytes, ser_Role = roleBytes, ser_Proof = associationProof i\<rparr> of
        Inl err \<Rightarrow> Inl err
      | Inr idemixIDBytes \<Rightarrow>
     (case Marshal_SerializedIdentity x
             \<lparr>si_Mspid = GetMSPIdentifier i, si_IdBytes = idemixIDBytes\<rparr> of
        Inl err \<Rightarrow>
          Inl (Wrapped err ''could not marshal a SerializedIdentity structure for identity %s'')
      | Inr idBytes \<Rightarrow> Inr idBytes)))))"

definition Sign ::
  "('k, 'w) signingIdentity \<Rightarrow> bytes \<Rightarrow> 'w \<Rightarrow> (error + bytes) \<times> 'w"
where
  "Sign s msg w =
     (case csp_Sign (csp (support (sid_identity s))) (UserKey s) msg
             (IdemixNymSignerOpts (Some (NymKey s)) (issuerPublicKey (support (sid_identity s)))) w of
        ((Inl err, info), w') \<Rightarrow> (Inl err, w')
      | ((Inr sig, info), w') \<Rightarrow> (Inr sig, w'))"

definition GetPublicVersion :: "('k, 'w) signingIdentity \<Rightarrow> ('k, 'w) identity" where
  "GetPublicVersion s = sid_identity s"

section \<open>The support and the provider\<close>

record ('k, 'w) provider =
  p_support :: "('k, 'w) support"
  userKey :: 'k
  conf :: IdemixMSPConfig
  sp :: "('k, 'w) ServiceProvider"

definition Deserialize ::
  "('k, 'w) deps \<Rightarrow> ('k, 'w) support \<Rightarrow> bytes \<Rightarrow> bool \<Rightarrow> 'w
     \<Rightarrow> ((error + ('k, 'w) deserialized) \<times> 'w) outcome"
where
  "Deserialize x s raw checkValidity w =
     (case Unmarshal_SerializedIdentity x raw of
        Inl err \<Rightarrow>
          Return (Inl (Wrapped err ''failed to unmarshal to msp.SerializedIdentity{}''), w)
      | Inr si \<Rightarrow>
     (case Unmarshal_SerializedIdemixIdentity x (si_IdBytes si) of
        Inl err \<Rightarrow>
          Return (Inl (Wrapped err ''could not deserialize a SerializedIdemixIdentity''), w)
      | Inr serialized \<Rightarrow>
     if ser_NymX serialized = None \<or> ser_NymY serialized = None
     then Return (Inl (Errorf ''unable to deserialize idemix identity: pseudonym is invalid''), w)
     else
     (case csp_KeyImport (csp s) (elems (ser_NymX serialized) @ elems (ser_NymY serialized))
             (IdemixNymPublicKeyImportOpts True) w of
        (Inl err, w1) \<Rightarrow> Return (Inl (WithMsg err ''failed to import nym public key''), w1)
      | (Inr nymPublicKey, w1) \<Rightarrow>
     (case Unmarshal_OrganizationUnit x (ser_Ou serialized) of
        Inl err \<Rightarrow> Return (Inl (Wrapped err ''cannot deserialize the OU of the identity''), w1)
      | Inr ou \<Rightarrow>
     (case Unmarshal_MSPRole x (ser_Role serialized) of
        Inl err \<Rightarrow> Return (Inl (Wrapped err ''cannot deserialize the role of the identity''), w1)
      | Inr role \<Rightarrow>
     (case newIdentity s nymPublicKey role ou (ser_Proof serialized) of
        Panic q \<Rightarrow> Panic q
      | Return i \<Rightarrow>
          if checkValidity
          then (case Validate x i w1 of
                  Panic q \<Rightarrow> Panic q
                | Return (Some err, w2) \<Rightarrow>
                    Return (Inl (Wrapped err ''cannot deserialize, invalid identity''), w2)
                | Return (None, w2) \<Rightarrow>
                    Return (Inr \<lparr>d_id = i, d_NymPublicKey = nymPublicKey, d_si = si,
                                 d_ou = ou, d_role = role\<rparr>, w2))
          else Return (Inr \<lparr>d_id = i, d_NymPublicKey = nymPublicKey, d_si = si,
                            d_ou = ou, d_role = role\<rparr>, w1)))))))"

definition GetSignerService ::
  "('k, 'w) ServiceProvider \<Rightarrow> 'w \<Rightarrow> (('k, 'w) SignerService \<times> 'w) outcome"
where
  "GetSignerService ctx w =
     (case GetService ctx w of
        (Inl err, w') \<Rightarrow> Panic (PanicErr err)
      | (Inr s, w') \<Rightarrow> Return (s, w'))"

definition NewProvider ::
  "('k, 'w) deps \<Rightarrow> MSPConfig option \<Rightarrow> ('k, 'w) ServiceProvider \<Rightarrow> 'w
     \<Rightarrow> (error + ('k, 'w) provider) \<times> 'w"
where
  "NewProvider x conf1 svcs w =
     (case conf1 of
        None \<Rightarrow> (Inl (Errorf ''setup error: nil conf reference''), w)
      | Some c1 \<Rightarrow>
     (case idemix_New x svcs w of
        (Inl err, w1) \<Rightarrow> (Inl (Wrapped err ''failed getting crypto provider''), w1)
      | (Inr cryptoProvider, w1) \<Rightarrow>
     (case Unmarshal_IdemixMSPConfig x (mspconf_Config c1) of
        Inl err \<Rightarrow> (Inl (Wrapped err ''failed unmarshalling idemix provider config''), w1)
      | Inr cfg \<Rightarrow>
     (case csp_KeyImport cryptoProvider (conf_Ipk cfg)
             (IdemixIssuerPublicKeyImportOpts True (AttributeNames x)) w1 of
        (Inl err, w2) \<Rightarrow> (Inl err, w2)
      | (Inr issuerKey, w2) \<Rightarrow>
     (case csp_KeyImport cryptoProvider (conf_RevocationPk cfg)
             (IdemixRevocationPublicKeyImportOpts True) w2 of
        (Inl err, w3) \<Rightarrow> (Inl (WithMsg err ''failed to import revocation public key''), w3)
      | (Inr revocationKey, w3) \<Rightarrow>
     (case conf_Signer cfg of
        None \<Rightarrow>
          (Inl (Errorf
             ''idemix provider setup as verification only provider (no key material found)''),
           w3)
      | Some signer \<Rightarrow>
     (case csp_KeyImport cryptoProvider (signer_Sk signer)
             (IdemixUserSecretKeyImportOpts True) w3 of
        (Inl err, w4) \<Rightarrow> (Inl (WithMsg err ''failed importing signer secret key''), w4)
      | (Inr uKey, w4) \<Rightarrow>
          (Inr \<lparr>p_support =
                  \<lparr>name = conf_Name cfg, ipk = [], csp = cryptoProvider,
                   issuerPublicKey = issuerKey, revocationPK = revocationKey, epoch = 0\<rparr>,
                userKey = uKey, conf = cfg, sp = svcs\<rparr>, w4))))))))"

text \<open>
  The role and the organizational unit that \<^verbatim>\<open>Identity\<close> reads from the signer
  block of the configuration, the attributes of its check of the credential, and the
  options of the proof it asks the engine for.
\<close>

definition signerRole :: "('k, 'w) deps \<Rightarrow> ('k, 'w) provider \<Rightarrow> IdemixMSPSignerConfig \<Rightarrow> MSPRole" where
  "signerRole x p signer =
     \<lparr>role_MspIdentifier = name (p_support p),
      role_Role = (if checkRole x (signer_Role signer) (ADMIN x)
                   then MSPRole_ADMIN else MSPRole_MEMBER)\<rparr>"

definition signerOU :: "('k, 'w) provider \<Rightarrow> IdemixMSPSignerConfig \<Rightarrow> OrganizationUnit" where
  "signerOU p signer =
     \<lparr>ou_MspIdentifier = name (p_support p),
      ou_OrganizationalUnitIdentifier = signer_OrganizationalUnitIdentifier signer,
      ou_CertifiersIdentifier = key_SKI (csp (p_support p)) (issuerPublicKey (p_support p))\<rparr>"

definition credentialOpts ::
  "('k, 'w) deps \<Rightarrow> ('k, 'w) provider \<Rightarrow> IdemixMSPSignerConfig \<Rightarrow> 'k SignerOpts"
where
  "credentialOpts x p signer =
     IdemixCredentialSignerOpts (issuerPublicKey (p_support p))
       [\<lparr>attr_Type = IdemixBytesAttribute,
         attr_Value = BytesValue (signer_OrganizationalUnitIdentifier signer)\<rparr>,
        \<lparr>attr_Type = IdemixIntAttribute,
         attr_Value = IntValue (getIdemixRoleFromMSPRole x (signerRole x p signer))\<rparr>,
        \<lparr>attr_Type = IdemixBytesAttribute,
         attr_Value = BytesValue (signer_EnrollmentId signer)\<rparr>,
        \<lparr>attr_Type = IdemixHiddenAttribute, attr_Value = NoValue\<rparr>]"

definition signOpts :: "('k, 'w) provider \<Rightarrow> IdemixMSPSignerConfig \<Rightarrow> 'k \<Rightarrow> 'k SignerOpts" where
  "signOpts p signer nymKey =
     IdemixSignerOpts
       \<lparr>so_Nym = Some nymKey, so_IssuerPK = Some (issuerPublicKey (p_support p)),
        so_Credential = signer_Cred signer,
        so_Attributes =
          [\<lparr>attr_Type = IdemixBytesAttribute, attr_Value = NoValue\<rparr>,
           \<lparr>attr_Type = IdemixIntAttribute, attr_Value = NoValue\<rparr>,
           \<lparr>attr_Type = IdemixHiddenAttribute, attr_Value = NoValue\<rparr>,
           \<lparr>attr_Type = IdemixHiddenAttribute, attr_Value = NoValue\<rparr>],
        so_RhIndex = rhIndex,
        so_CRI = signer_CredentialRevocationInformation signer,
        so_Epoch = 0, so_RevocationPublicKey = None\<rparr>"

text \<open>
  \<^verbatim>\<open>Identity\<close> returns three values, the serialized identity, the serialized audit
  information and the error. Its check of the credential returns
  \<^verbatim>\<open>errors.WithMessage(err, ...)\<close> under \<^verbatim>\<open>err != nil || !valid\<close>, where the error
  may be nil, so the three are kept apart. A nil signer block is a nil dereference at
  the first read of one of its fields.
\<close>

definition Identity ::
  "('k, 'w) deps \<Rightarrow> ('k, 'w) provider \<Rightarrow> 'w
     \<Rightarrow> ((bytes option \<times> bytes option \<times> error option) \<times> 'w) outcome"
where
  "Identity x p w =
     (case csp_KeyDeriv (csp (p_support p)) (userKey p)
             (IdemixNymKeyDerivationOpts False (issuerPublicKey (p_support p))) w of
        (Inl err, w1) \<Rightarrow> Return ((None, None, Some (WithMsg err ''failed deriving nym'')), w1)
      | (Inr nymKey, w1) \<Rightarrow>
     (case key_PublicKey (csp (p_support p)) nymKey of
        Inl err \<Rightarrow> Return ((None, None, Some (Wrapped err ''failed getting public nym key'')), w1)
      | Inr nymPublicKey \<Rightarrow>
     (case conf_Signer (conf p) of
        None \<Rightarrow> Panic NilDereference
      | Some signer \<Rightarrow>
     (case csp_Verify (csp (p_support p)) (userKey p) (signer_Cred signer) []
             (credentialOpts x p signer) w1 of
        ((valid, err), w2) \<Rightarrow>
     if err \<noteq> None \<or> \<not> valid
     then Return ((None, None,
                   errors_WithMessage err ''Credential is not cryptographically valid''), w2)
     else
     (case csp_Sign (csp (p_support p)) (userKey p) [] (signOpts p signer nymKey) w2 of
        ((Inl err, info), w3) \<Rightarrow>
          Return ((None, None,
                   Some (WithMsg err ''Failed to setup cryptographic proof of identity'')), w3)
      | ((Inr proof, info), w3) \<Rightarrow>
     (case newIdentity (p_support p) nymPublicKey (signerRole x p signer) (signerOU p signer)
             proof of
        Panic q \<Rightarrow> Panic q
      | Return i \<Rightarrow>
     (let sID = \<lparr>sid_identity = i, Cred = signer_Cred signer, UserKey = userKey p,
                 NymKey = nymKey, enrollmentId = signer_EnrollmentId signer\<rparr>
      in
     (case Serialize x (sid_identity sID) of
        Inl err \<Rightarrow> Return ((None, None, Some err), w3)
      | Inr raw \<Rightarrow>
     (case GetSignerService (sp p) w3 of
        Panic q \<Rightarrow> Panic q
      | Return (registry, w4) \<Rightarrow>
     (case RegisterSigner registry raw sID sID w4 of
        (Some err, w5) \<Rightarrow> Return ((None, None, Some err), w5)
      | (None, w5) \<Rightarrow>
     (case AuditInfo_Bytes x
             \<lparr>IdemixSignatureInfo = info,
              Attributes = [signer_OrganizationalUnitIdentifier signer,
                            Itoa (getIdemixRoleFromMSPRole x (signerRole x p signer)),
                            signer_EnrollmentId signer]\<rparr> of
        Inl err \<Rightarrow> Return ((None, None, Some err), w5)
      | Inr infoRaw \<Rightarrow> Return ((Some raw, Some infoRaw, None), w5))))))))))))"


definition DeserializeSigner ::
  "('k, 'w) deps \<Rightarrow> ('k, 'w) provider \<Rightarrow> bytes \<Rightarrow> 'w
     \<Rightarrow> ((error + ('k, 'w) signingIdentity) \<times> 'w) outcome"
where
  "DeserializeSigner x p raw w =
     (case Deserialize x (p_support p) raw True w of
        Panic q \<Rightarrow> Panic q
      | Return (Inl err, w1) \<Rightarrow> Return (Inl err, w1)
      | Return (Inr r, w1) \<Rightarrow>
     (case csp_GetKey (csp (p_support p)) (key_SKI (csp (p_support p)) (d_NymPublicKey r)) w1 of
        (Inl err, w2) \<Rightarrow> Return (Inl (Wrapped err ''cannot find nym secret key''), w2)
      | (Inr nymKey, w2) \<Rightarrow>
     (case conf_Signer (conf p) of
        None \<Rightarrow> Panic NilDereference
      | Some signer \<Rightarrow>
     (let si = \<lparr>sid_identity = d_id r, Cred = signer_Cred signer, UserKey = userKey p,
                NymKey = nymKey, enrollmentId = signer_EnrollmentId signer\<rparr>;
          msg = ''hello world!!!''
      in
     (case Sign si msg w2 of
        (Inl err, w3) \<Rightarrow>
          Return (Inl (Wrapped err ''failed generating verification signature''), w3)
      | (Inr sigma, w3) \<Rightarrow>
     (case Verify (sid_identity si) msg sigma w3 of
        (Some err, w4) \<Rightarrow>
          Return (Inl (Wrapped err ''failed verifying verification signature''), w4)
      | (None, w4) \<Rightarrow> Return (Inr si, w4)))))))"



section \<open>A small environment to run the functions in\<close>

text \<open>
  An instance of the parameters on which the functions above compute: keys are their
  own bytes, the state counts the calls of the engine and of the registry, and each
  codec is a finite table of the messages used below with their encodings, read in one
  direction by \<open>table_Unmarshal\<close> and in the other by \<open>table_Marshal\<close>, so that a
  message of a table and its bytes are each recovered from the other.
\<close>

definition table_Unmarshal :: "(bytes \<times> 'm) list \<Rightarrow> bytes \<Rightarrow> error + 'm" where
  "table_Unmarshal t b =
     (case map_of t b of
        None \<Rightarrow> Inl (Errorf ''proto: cannot parse invalid wire-format data'')
      | Some m \<Rightarrow> Inr m)"

definition table_Marshal :: "(bytes \<times> 'm) list \<Rightarrow> 'm \<Rightarrow> error + bytes" where
  "table_Marshal t m =
     (case map_of (map (\<lambda>(b, v). (v, b)) t) m of
        None \<Rightarrow> Inl (Errorf ''proto: message outside the table'')
      | Some b \<Rightarrow> Inr b)"

definition demo_ou :: OrganizationUnit where
  "demo_ou = \<lparr>ou_MspIdentifier = ''OrgXMSP'',
              ou_OrganizationalUnitIdentifier = ''manufacturing'',
              ou_CertifiersIdentifier = ''ipk''\<rparr>"

definition demo_role :: MSPRole where
  "demo_role = \<lparr>role_MspIdentifier = ''OrgXMSP'', role_Role = MSPRole_ADMIN\<rparr>"

definition demo_inner :: "bytes option \<Rightarrow> bytes option \<Rightarrow> bytes \<Rightarrow> SerializedIdemixIdentity" where
  "demo_inner nx ny prf =
     \<lparr>ser_NymX = nx, ser_NymY = ny, ser_Ou = ''ou'', ser_Role = ''role'', ser_Proof = prf\<rparr>"

definition inner_table :: "(bytes \<times> SerializedIdemixIdentity) list" where
  "inner_table =
     [(''I:ab:cd'', demo_inner (Some ''ab'') (Some ''cd'') ''proof''),
      (''I:a:bcd'', demo_inner (Some ''a'') (Some ''bcd'') ''proof''),
      (''I:ab:'', demo_inner (Some ''ab'') None ''proof''),
      (''I:ab:cd:forged'', demo_inner (Some ''ab'') (Some ''cd'') ''forged''),
      (''I:wx:yz'', demo_inner (Some ''wx'') (Some ''yz'') ''proof''),
      (''I:mn:op'', demo_inner (Some ''mn'') (Some ''op'') ''proof''),
      (''I:qr:st'', demo_inner (Some ''qr'') (Some ''st'') ''proof'')]"

definition outer_table :: "(bytes \<times> SerializedIdentity) list" where
  "outer_table =
     [(''OrgXMSP/I:ab:cd'', \<lparr>si_Mspid = ''OrgXMSP'', si_IdBytes = ''I:ab:cd''\<rparr>),
      (''OtherMSP/I:ab:cd'', \<lparr>si_Mspid = ''OtherMSP'', si_IdBytes = ''I:ab:cd''\<rparr>),
      (''OrgXMSP/I:a:bcd'', \<lparr>si_Mspid = ''OrgXMSP'', si_IdBytes = ''I:a:bcd''\<rparr>),
      (''OrgXMSP/I:ab:'', \<lparr>si_Mspid = ''OrgXMSP'', si_IdBytes = ''I:ab:''\<rparr>),
      (''OrgXMSP/I:ab:cd:forged'', \<lparr>si_Mspid = ''OrgXMSP'', si_IdBytes = ''I:ab:cd:forged''\<rparr>),
      (''OrgXMSP/I:wx:yz'', \<lparr>si_Mspid = ''OrgXMSP'', si_IdBytes = ''I:wx:yz''\<rparr>),
      (''OrgXMSP/I:mn:op'', \<lparr>si_Mspid = ''OrgXMSP'', si_IdBytes = ''I:mn:op''\<rparr>),
      (''OrgXMSP/I:qr:st'', \<lparr>si_Mspid = ''OrgXMSP'', si_IdBytes = ''I:qr:st''\<rparr>),
      (''OrgXMSP/junk'', \<lparr>si_Mspid = ''OrgXMSP'', si_IdBytes = ''junk''\<rparr>)]"

definition demo_signer :: IdemixMSPSignerConfig where
  "demo_signer =
     \<lparr>signer_Cred = ''cred'', signer_Sk = ''usk'',
      signer_OrganizationalUnitIdentifier = ''manufacturing'', signer_Role = 2,
      signer_EnrollmentId = ''alice'', signer_CredentialRevocationInformation = ''cri''\<rparr>"

definition demo_conf :: "IdemixMSPSignerConfig option \<Rightarrow> IdemixMSPConfig" where
  "demo_conf sg =
     \<lparr>conf_Name = ''OrgXMSP'', conf_Ipk = ''ipk'', conf_Signer = sg, conf_RevocationPk = ''rpk''\<rparr>"

definition conf_table :: "(bytes \<times> IdemixMSPConfig) list" where
  "conf_table =
     [(''conf:signer'', demo_conf (Some demo_signer)), (''conf:verifier'', demo_conf None)]"

text \<open>
  The engine of the environment. A proof is valid when it is \<open>''proof''\<close> and a
  credential when it is \<open>''cred''\<close>. The store holds three pseudonym secrets under the
  identifiers of their public keys: the secret of \<open>''abcd''\<close>, a secret under
  \<open>''wxyz''\<close> that is not the one of that public key, and a secret under \<open>''mnop''\<close>
  that the engine cannot sign with. A signature is the secret followed by the message,
  and it verifies under the public key of that secret.
\<close>

definition demo_store :: "bytes \<Rightarrow> bytes option" where
  "demo_store ski =
     (if ski = ''abcd'' then Some ''secret-of-abcd''
      else if ski = ''wxyz'' then Some ''stale''
      else if ski = ''mnop'' then Some ''unusable''
      else None)"

definition demo_csp :: "(bytes, nat) BCCSP" where
  "demo_csp =
     \<lparr>csp_KeyImport = (\<lambda>raw opts w.
        (if raw = [] then Inl (Errorf ''invalid key bytes'') else Inr raw, Suc w)),
      csp_KeyDeriv = (\<lambda>k opts w. (Inr ''secret-of-abcd'', Suc w)),
      csp_GetKey = (\<lambda>ski w.
        (case demo_store ski of
           None \<Rightarrow> Inl (Errorf ''key not found'')
         | Some secret \<Rightarrow> Inr secret,
         Suc w)),
      csp_Sign = (\<lambda>k msg opts w.
        (case opts of
           IdemixSignerOpts so \<Rightarrow> (Inr ''proof'', ''randomness'')
         | IdemixNymSignerOpts n pk \<Rightarrow>
             (if n = Some ''unusable'' then Inl (Errorf ''cannot sign'')
              else Inr (elems n @ msg), [])
         | IdemixCredentialSignerOpts pk attrs \<Rightarrow> (Inl (Errorf ''unsupported options''), []),
         Suc w)),
      csp_Verify = (\<lambda>k sig msg opts w.
        (case opts of
           IdemixSignerOpts so \<Rightarrow>
             if sig = ''proof'' then (True, None) else (False, Some (Errorf ''invalid proof''))
         | IdemixNymSignerOpts n pk \<Rightarrow>
             if sig = ''secret-of-'' @ k @ msg then (True, None)
             else (False, Some (Errorf ''invalid signature''))
         | IdemixCredentialSignerOpts pk attrs \<Rightarrow>
             if sig = ''cred'' then (True, None)
             else (False, Some (Errorf ''invalid credential'')),
         Suc w)),
      key_Bytes = (\<lambda>k. Inr (Some k)),
      key_SKI = (\<lambda>k. k),
      key_PublicKey = (\<lambda>k. if k = ''secret-of-abcd'' then Inr ''abcd'' else Inr k)\<rparr>"

text \<open>An engine that answers every verification with the same pair.\<close>

definition fixed_verdict_csp :: "bool \<times> error option \<Rightarrow> (bytes, nat) BCCSP" where
  "fixed_verdict_csp answer = demo_csp\<lparr>csp_Verify := (\<lambda>k sig msg opts w. (answer, Suc w))\<rparr>"

definition demo_services :: "(bytes, nat) ServiceProvider" where
  "demo_services =
     \<lparr>GetService = (\<lambda>w. (Inr \<lparr>RegisterSigner = (\<lambda>raw s v w'. (None, Suc w'))\<rparr>, w))\<rparr>"

definition demo_deps :: "(bytes, nat) deps" where
  "demo_deps =
     \<lparr>Unmarshal_SerializedIdentity = table_Unmarshal outer_table,
      Unmarshal_SerializedIdemixIdentity = table_Unmarshal inner_table,
      Unmarshal_OrganizationUnit = table_Unmarshal [(''ou'', demo_ou)],
      Unmarshal_MSPRole = table_Unmarshal [(''role'', demo_role)],
      Unmarshal_IdemixMSPConfig = table_Unmarshal conf_table,
      Marshal_SerializedIdentity = table_Marshal outer_table,
      Marshal_SerializedIdemixIdentity = table_Marshal inner_table,
      Marshal_OrganizationUnit = table_Marshal [(''ou'', demo_ou)],
      Marshal_MSPRole = table_Marshal [(''role'', demo_role)],
      getIdemixRoleFromMSPRole =
        (\<lambda>r. case role_Role r of MSPRole_ADMIN \<Rightarrow> 2 | MSPRole_MEMBER \<Rightarrow> 1),
      checkRole = (\<lambda>mask r. mask = r),
      ADMIN = 2,
      AuditInfo_Bytes =
        (\<lambda>a. Inr (IdemixSignatureInfo a @ concat (map (\<lambda>v. CHR '';'' # v) (Attributes a)))),
      AuditInfo_FromBytes = (\<lambda>b.
        if b = ''randomness;manufacturing;2;alice''
        then Inr \<lparr>IdemixSignatureInfo = ''randomness'',
                  Attributes = [''manufacturing'', ''2'', ''alice'']\<rparr>
        else Inl (Errorf ''invalid audit info'')),
      AuditInfo_Match = (\<lambda>ai raw w. (None, w)),
      AuditInfo_EnrollmentID = (\<lambda>ai. Attributes ai ! 2),
      UniqueID = (\<lambda>raw. raw),
      MSPRoleType_String =
        (\<lambda>t. case t of MSPRole_ADMIN \<Rightarrow> ''ADMIN'' | MSPRole_MEMBER \<Rightarrow> ''MEMBER''),
      idemix_New = (\<lambda>svcs w. (Inr demo_csp, w)),
      AttributeNames = [''OU'', ''Role'', ''EnrollmentID'', ''RevocationHandle'']\<rparr>"

definition demo_support :: "(bytes, nat) support" where
  "demo_support =
     \<lparr>name = ''OrgXMSP'', ipk = [], csp = demo_csp, issuerPublicKey = ''ipk'',
      revocationPK = ''rpk'', epoch = 0\<rparr>"

definition demo_provider :: "(bytes, nat) provider" where
  "demo_provider =
     \<lparr>p_support = demo_support, userKey = ''usk'', conf = demo_conf (Some demo_signer),
      sp = demo_services\<rparr>"

definition demo_identity_on ::
  "(bytes, nat) BCCSP \<Rightarrow> bytes \<Rightarrow> (bytes, nat) identity"
where
  "demo_identity_on engine k =
     \<lparr>NymPublicKey = k, support = demo_support\<lparr>csp := engine\<rparr>,
      ident = \<lparr>ii_Mspid = ''OrgXMSP'', ii_Id = k\<rparr>,
      Role = demo_role, OU = demo_ou, associationProof = ''proof''\<rparr>"

definition demo_identity :: "bytes \<Rightarrow> (bytes, nat) identity" where
  "demo_identity k =
     \<lparr>NymPublicKey = k, support = demo_support,
      ident = \<lparr>ii_Mspid = ''OrgXMSP'', ii_Id = k\<rparr>,
      Role = demo_role, OU = demo_ou, associationProof = ''proof''\<rparr>"

definition demo_signing :: "bytes \<Rightarrow> bytes \<Rightarrow> (bytes, nat) signingIdentity" where
  "demo_signing k n =
     \<lparr>sid_identity = demo_identity k, Cred = ''cred'', UserKey = ''usk'', NymKey = n,
      enrollmentId = ''alice''\<rparr>"

section \<open>Properties\<close>

lemmas demo_defs =
  demo_deps_def demo_support_def demo_csp_def demo_identity_def demo_ou_def demo_role_def
  demo_inner_def inner_table_def outer_table_def table_Unmarshal_def table_Marshal_def
  demo_provider_def demo_conf_def demo_signer_def conf_table_def demo_services_def
  demo_store_def demo_identity_on_def fixed_verdict_csp_def

subsection \<open>Validation of an identity\<close>

text \<open>
  What \<^verbatim>\<open>Validate\<close> returns: the error of the engine's answer to the verification of
  the proof, and nil exactly when the engine answered valid without an error.
\<close>

lemma Validate_returns_engine_error:
  "(Validate x i w = Return (err, w') \<longleftrightarrow>
      (\<exists>valid. engineVerdict x i w = ((valid, err), w') \<and> (valid \<or> err \<noteq> None)))
   \<and> (Validate x i w = Return (None, w') \<longleftrightarrow> engineVerdict x i w = ((True, None), w'))"
  by (auto simp: Validate_def verifyProof_def GetMSPIdentifier_def split: prod.splits)

text \<open>
  Claim C2. \<^verbatim>\<open>Validate\<close> is to fail, with the error of an identity that does not
  belong to the authority, when the authority name of the identity differs from the name
  of the verifying support. The code has the check and its error, but it compares
  \<^verbatim>\<open>GetMSPIdentifier()\<close> with \<^verbatim>\<open>support.name\<close>, and \<^verbatim>\<open>GetMSPIdentifier()\<close>
  returns \<^verbatim>\<open>support.name\<close>: the name in the envelope and the name in the identifier
  are never read. In the environment the support is named \<open>OrgXMSP\<close> and the envelope
  \<open>OtherMSP/I:ab:cd\<close> names \<open>OtherMSP\<close>: \<^verbatim>\<open>Deserialize\<close> builds its identity,
  \<^verbatim>\<open>Validate\<close> returns nil on it, and \<^verbatim>\<open>Deserialize\<close> with the check of validity
  accepts the envelope. \<^verbatim>\<open>Validate\<close> also returns nil on the identity whose identifier
  names \<open>OtherMSP\<close>.
\<close>

theorem Validate_accepts_other_authority:
  "name demo_support = ''OrgXMSP''
   \<and> Unmarshal_SerializedIdentity demo_deps ''OtherMSP/I:ab:cd''
       = Inr \<lparr>si_Mspid = ''OtherMSP'', si_IdBytes = ''I:ab:cd''\<rparr>
   \<and> Deserialize demo_deps demo_support ''OtherMSP/I:ab:cd'' False 0 =
       Return (Inr \<lparr>d_id = demo_identity ''abcd'', d_NymPublicKey = ''abcd'',
                    d_si = \<lparr>si_Mspid = ''OtherMSP'', si_IdBytes = ''I:ab:cd''\<rparr>,
                    d_ou = demo_ou, d_role = demo_role\<rparr>, 1)
   \<and> Validate demo_deps (demo_identity ''abcd'') 1 = Return (None, 2)
   \<and> Deserialize demo_deps demo_support ''OtherMSP/I:ab:cd'' True 0 =
       Return (Inr \<lparr>d_id = demo_identity ''abcd'', d_NymPublicKey = ''abcd'',
                    d_si = \<lparr>si_Mspid = ''OtherMSP'', si_IdBytes = ''I:ab:cd''\<rparr>,
                    d_ou = demo_ou, d_role = demo_role\<rparr>, 2)
   \<and> Validate demo_deps
         ((demo_identity ''abcd'')\<lparr>ident := \<lparr>ii_Mspid = ''OtherMSP'', ii_Id = ''abcd''\<rparr>\<rparr>) 0
       = Return (None, 1)"
proof -
  have n: "name demo_support = ''OrgXMSP''"
    by (simp add: demo_support_def)
  have u: "Unmarshal_SerializedIdentity demo_deps ''OtherMSP/I:ab:cd''
             = Inr \<lparr>si_Mspid = ''OtherMSP'', si_IdBytes = ''I:ab:cd''\<rparr>"
    by (simp add: demo_deps_def table_Unmarshal_def outer_table_def)
  have d: "Deserialize demo_deps demo_support ''OtherMSP/I:ab:cd'' False 0 =
       Return (Inr \<lparr>d_id = demo_identity ''abcd'', d_NymPublicKey = ''abcd'',
                    d_si = \<lparr>si_Mspid = ''OtherMSP'', si_IdBytes = ''I:ab:cd''\<rparr>,
                    d_ou = demo_ou, d_role = demo_role\<rparr>, 1)"
    by (simp add: Deserialize_def demo_defs elems_def newIdentity_def)
  have v: "Validate demo_deps (demo_identity ''abcd'') 1 = Return (None, 2)"
    by (simp add: Validate_def verifyProof_def engineVerdict_def proofOpts_def
          GetMSPIdentifier_def demo_defs)
  have c: "Deserialize demo_deps demo_support ''OtherMSP/I:ab:cd'' True 0 =
       Return (Inr \<lparr>d_id = demo_identity ''abcd'', d_NymPublicKey = ''abcd'',
                    d_si = \<lparr>si_Mspid = ''OtherMSP'', si_IdBytes = ''I:ab:cd''\<rparr>,
                    d_ou = demo_ou, d_role = demo_role\<rparr>, 2)"
    by (simp add: Deserialize_def demo_defs GetMSPIdentifier_def elems_def newIdentity_def
          Validate_def verifyProof_def engineVerdict_def proofOpts_def)
  have w: "Validate demo_deps
         ((demo_identity ''abcd'')\<lparr>ident := \<lparr>ii_Mspid = ''OtherMSP'', ii_Id = ''abcd''\<rparr>\<rparr>) 0
       = Return (None, 1)"
    by (simp add: Validate_def verifyProof_def engineVerdict_def proofOpts_def
          GetMSPIdentifier_def demo_defs)
  from n u d v c w show ?thesis by simp
qed

text \<open>
  Claim C10. An identity built by \<^verbatim>\<open>newIdentity\<close> carries the support it was built
  over and the name of that support in its identifier. On every identity
  \<^verbatim>\<open>GetMSPIdentifier\<close> reads the name of the support of the identity: the two names
  that \<^verbatim>\<open>Validate\<close> compares are the same field, its first branch is never taken,
  and \<^verbatim>\<open>Validate\<close> is \<^verbatim>\<open>verifyProof\<close>.
\<close>

theorem newIdentity_Validate_reduces:
  "(newIdentity s k role ou evidence = Return i \<longrightarrow>
      support i = s \<and> GetMSPIdentifier i = name s \<and> ii_Mspid (ident i) = name s)
   \<and> GetMSPIdentifier j = name (support j)
   \<and> Validate x j w = verifyProof x j w"
  by (auto simp: newIdentity_def Validate_def GetMSPIdentifier_def split: sum.splits)

theorem newIdentity_Validate_witness:
  "newIdentity demo_support ''abcd'' demo_role demo_ou ''proof'' = Return (demo_identity ''abcd'')
   \<and> support (demo_identity ''abcd'') = demo_support
   \<and> GetMSPIdentifier (demo_identity ''abcd'') = ''OrgXMSP''
   \<and> Validate demo_deps (demo_identity ''abcd'') 0 = verifyProof demo_deps (demo_identity ''abcd'') 0"
proof -
  have n: "newIdentity demo_support ''abcd'' demo_role demo_ou ''proof''
             = Return (demo_identity ''abcd'')"
    by (simp add: newIdentity_def demo_defs elems_def)
  from newIdentity_Validate_reduces
         [of demo_support "''abcd''" demo_role demo_ou "''proof''" "demo_identity ''abcd''"
             "demo_identity ''abcd''" demo_deps 0] n
  show ?thesis by (simp add: demo_support_def)
qed

text \<open>
  Claim C3, as the code has it. When the engine answers the verification of the proof
  with invalid and no error, \<^verbatim>\<open>verifyProof\<close> panics. When it answers valid together
  with an error, \<^verbatim>\<open>verifyProof\<close> does not panic: it returns that error to the caller
  like any other failed verification.
\<close>

theorem verifyProof_contradictory_verdicts:
  "(engineVerdict x i w = ((False, None), w') \<longrightarrow>
      verifyProof x i w = Panic (PanicMsg
        ''unexpected condition, an error should be returned for an invalid signature''))
   \<and> (engineVerdict x i w = ((True, Some e), w') \<longrightarrow> verifyProof x i w = Return (Some e, w'))"
  by (simp add: verifyProof_def)

theorem verifyProof_contradictory_witness:
  "engineVerdict demo_deps (demo_identity_on (fixed_verdict_csp (False, None)) ''abcd'') 0
     = ((False, None), 1)
   \<and> verifyProof demo_deps (demo_identity_on (fixed_verdict_csp (False, None)) ''abcd'') 0
     = Panic (PanicMsg
         ''unexpected condition, an error should be returned for an invalid signature'')
   \<and> engineVerdict demo_deps
       (demo_identity_on (fixed_verdict_csp (True, Some (Errorf ''engine failure''))) ''abcd'') 7
     = ((True, Some (Errorf ''engine failure'')), 8)
   \<and> verifyProof demo_deps
       (demo_identity_on (fixed_verdict_csp (True, Some (Errorf ''engine failure''))) ''abcd'') 7
     = Return (Some (Errorf ''engine failure''), 8)"
proof -
  have a: "engineVerdict demo_deps (demo_identity_on (fixed_verdict_csp (False, None)) ''abcd'') 0
     = ((False, None), 1)"
    by (simp add: engineVerdict_def demo_defs)
  have b: "engineVerdict demo_deps
       (demo_identity_on (fixed_verdict_csp (True, Some (Errorf ''engine failure''))) ''abcd'') 7
     = ((True, Some (Errorf ''engine failure'')), 8)"
    by (simp add: engineVerdict_def demo_defs)
  from a b
    verifyProof_contradictory_verdicts
      [of demo_deps "demo_identity_on (fixed_verdict_csp (False, None)) ''abcd''" 0 1]
    verifyProof_contradictory_verdicts
      [of demo_deps "demo_identity_on (fixed_verdict_csp (True, Some (Errorf ''engine failure''))) ''abcd''"
          7 8 "Errorf ''engine failure''"]
  show ?thesis by simp
qed

text \<open>
  Claim C3 as stated asks for a fatal outcome in both contradictory cases. On an engine
  that answers valid together with an error, \<^verbatim>\<open>verifyProof\<close> returns the error.
\<close>

theorem verifyProof_valid_with_error_counterexample:
  "engineVerdict demo_deps
       (demo_identity_on (fixed_verdict_csp (True, Some (Errorf ''engine failure''))) ''abcd'') 0
     = ((True, Some (Errorf ''engine failure'')), 1)
   \<and> verifyProof demo_deps
       (demo_identity_on (fixed_verdict_csp (True, Some (Errorf ''engine failure''))) ''abcd'') 0
     = Return (Some (Errorf ''engine failure''), 1)"
  by (simp add: verifyProof_def engineVerdict_def demo_defs)

text \<open>
  Claim C9, as the code has it. \<^verbatim>\<open>SatisfiesPrincipal\<close> returns nothing: on every
  identity and every principal it panics with the message \<open>not implemented yet\<close>.
\<close>

theorem SatisfiesPrincipal_panics:
  "SatisfiesPrincipal i mspPrincipal = Panic (PanicMsg ''not implemented yet'')"
  by (simp add: SatisfiesPrincipal_def)

text \<open>
  Claim C9 as stated asks for a returned failure. On the identity of the environment
  the call returns no value, neither an error nor nil: it panics.
\<close>

theorem SatisfiesPrincipal_counterexample:
  "SatisfiesPrincipal (demo_identity ''abcd'') ''any principal''
     = Panic (PanicMsg ''not implemented yet'')"
  by (simp add: SatisfiesPrincipal_def)

subsection \<open>Deserialization\<close>

text \<open>
  Claim C5. \<^verbatim>\<open>Deserialize\<close> returns an error and no identity, without a call of the
  engine, when the outer envelope does not parse, when the inner message does not parse,
  and when the inner message lacks \<^verbatim>\<open>NymX\<close> or \<^verbatim>\<open>NymY\<close>. The three errors are the
  ones the specification calls \<open>MalformedIdentity\<close>.
\<close>

theorem Deserialize_malformed:
  "(Unmarshal_SerializedIdentity x raw = Inl e \<longrightarrow>
      Deserialize x s raw checkValidity w =
        Return (Inl (Wrapped e ''failed to unmarshal to msp.SerializedIdentity{}''), w))
   \<and> (Unmarshal_SerializedIdentity x raw = Inr si
        \<and> Unmarshal_SerializedIdemixIdentity x (si_IdBytes si) = Inl e \<longrightarrow>
      Deserialize x s raw checkValidity w =
        Return (Inl (Wrapped e ''could not deserialize a SerializedIdemixIdentity''), w))
   \<and> (Unmarshal_SerializedIdentity x raw = Inr si
        \<and> Unmarshal_SerializedIdemixIdentity x (si_IdBytes si) = Inr serialized
        \<and> (ser_NymX serialized = None \<or> ser_NymY serialized = None) \<longrightarrow>
      Deserialize x s raw checkValidity w =
        Return (Inl (Errorf ''unable to deserialize idemix identity: pseudonym is invalid''), w))"
  by (simp add: Deserialize_def)

theorem Deserialize_malformed_witness:
  "Unmarshal_SerializedIdentity demo_deps ''not an envelope''
     = Inl (Errorf ''proto: cannot parse invalid wire-format data'')
   \<and> Deserialize demo_deps demo_support ''not an envelope'' True 0
     = Return (Inl (Wrapped (Errorf ''proto: cannot parse invalid wire-format data'')
                      ''failed to unmarshal to msp.SerializedIdentity{}''), 0)
   \<and> Unmarshal_SerializedIdentity demo_deps ''OrgXMSP/junk''
     = Inr \<lparr>si_Mspid = ''OrgXMSP'', si_IdBytes = ''junk''\<rparr>
   \<and> Deserialize demo_deps demo_support ''OrgXMSP/junk'' True 0
     = Return (Inl (Wrapped (Errorf ''proto: cannot parse invalid wire-format data'')
                      ''could not deserialize a SerializedIdemixIdentity''), 0)
   \<and> Unmarshal_SerializedIdemixIdentity demo_deps ''I:ab:''
     = Inr (demo_inner (Some ''ab'') None ''proof'')
   \<and> Deserialize demo_deps demo_support ''OrgXMSP/I:ab:'' False 0
     = Return (Inl (Errorf ''unable to deserialize idemix identity: pseudonym is invalid''), 0)"
proof -
  let ?bad = "Errorf ''proto: cannot parse invalid wire-format data''"
  have a: "Unmarshal_SerializedIdentity demo_deps ''not an envelope'' = Inl ?bad"
    by (simp add: demo_deps_def table_Unmarshal_def outer_table_def)
  have b: "Unmarshal_SerializedIdentity demo_deps ''OrgXMSP/junk''
             = Inr \<lparr>si_Mspid = ''OrgXMSP'', si_IdBytes = ''junk''\<rparr>"
    by (simp add: demo_deps_def table_Unmarshal_def outer_table_def)
  have c: "Unmarshal_SerializedIdemixIdentity demo_deps ''junk'' = Inl ?bad"
    by (simp add: demo_deps_def table_Unmarshal_def inner_table_def)
  have d: "Unmarshal_SerializedIdentity demo_deps ''OrgXMSP/I:ab:''
             = Inr \<lparr>si_Mspid = ''OrgXMSP'', si_IdBytes = ''I:ab:''\<rparr>"
    by (simp add: demo_deps_def table_Unmarshal_def outer_table_def)
  have e: "Unmarshal_SerializedIdemixIdentity demo_deps ''I:ab:''
             = Inr (demo_inner (Some ''ab'') None ''proof'')"
    by (simp add: demo_deps_def table_Unmarshal_def inner_table_def)
  have f: "ser_NymY (demo_inner (Some ''ab'') None ''proof'') = None"
    by (simp add: demo_inner_def)
  from a b c d e f
    Deserialize_malformed [of demo_deps "''not an envelope''" ?bad demo_support True 0]
    Deserialize_malformed [of demo_deps "''OrgXMSP/junk''" ?bad demo_support True 0
       "\<lparr>si_Mspid = ''OrgXMSP'', si_IdBytes = ''junk''\<rparr>"]
    Deserialize_malformed [of demo_deps "''OrgXMSP/I:ab:''" _ demo_support False 0
       "\<lparr>si_Mspid = ''OrgXMSP'', si_IdBytes = ''I:ab:''\<rparr>"
       "demo_inner (Some ''ab'') None ''proof''"]
  show ?thesis by simp
qed





text \<open>Runs of \<^verbatim>\<open>Deserialize\<close> in the environment.\<close>

lemma demo_Deserialize_accepts:
  "k = ''abcd'' \<and> b = ''OrgXMSP/I:ab:cd'' \<and> i = ''I:ab:cd''
   \<or> k = ''wxyz'' \<and> b = ''OrgXMSP/I:wx:yz'' \<and> i = ''I:wx:yz''
   \<or> k = ''mnop'' \<and> b = ''OrgXMSP/I:mn:op'' \<and> i = ''I:mn:op''
   \<or> k = ''qrst'' \<and> b = ''OrgXMSP/I:qr:st'' \<and> i = ''I:qr:st'' \<Longrightarrow>
   Deserialize demo_deps demo_support b True 0 =
     Return (Inr \<lparr>d_id = demo_identity k, d_NymPublicKey = k,
                  d_si = \<lparr>si_Mspid = ''OrgXMSP'', si_IdBytes = i\<rparr>,
                  d_ou = demo_ou, d_role = demo_role\<rparr>, 2)"
  by (auto simp: Deserialize_def demo_defs GetMSPIdentifier_def elems_def newIdentity_def
        Validate_def verifyProof_def engineVerdict_def proofOpts_def)

lemma demo_Deserialize_rejects:
  "Deserialize demo_deps demo_support ''OrgXMSP/I:ab:cd:forged'' True 0 =
     Return (Inl (Wrapped (Errorf ''invalid proof'') ''cannot deserialize, invalid identity''), 2)"
  by (simp add: Deserialize_def demo_defs GetMSPIdentifier_def elems_def newIdentity_def
        Validate_def verifyProof_def engineVerdict_def proofOpts_def)


subsection \<open>Signers from serialized identities\<close>

lemma DeserializeSigner_success:
  assumes "DeserializeSigner x p raw w = Return (Inr sg, w')"
  shows "\<exists>r w1 w2 sigma w3.
           Deserialize x (p_support p) raw True w = Return (Inr r, w1)
           \<and> csp_GetKey (csp (p_support p))
                (key_SKI (csp (p_support p)) (d_NymPublicKey r)) w1 = (Inr (NymKey sg), w2)
           \<and> sid_identity sg = d_id r
           \<and> Sign sg ''hello world!!!'' w2 = (Inr sigma, w3)
           \<and> Verify (sid_identity sg) ''hello world!!!'' sigma w3 = (None, w')"
  using assms unfolding DeserializeSigner_def Let_def
  by (auto split: outcome.splits sum.splits prod.splits option.splits)

lemma DeserializeSigner_self_test_fails:
  assumes "Deserialize x (p_support p) raw True w = Return (Inr r, w1)"
    and "csp_GetKey (csp (p_support p))
           (key_SKI (csp (p_support p)) (d_NymPublicKey r)) w1 = (Inr nymKey, w2)"
    and "conf_Signer (conf p) = Some signer"
    and "sg = \<lparr>sid_identity = d_id r, Cred = signer_Cred signer, UserKey = userKey p,
               NymKey = nymKey, enrollmentId = signer_EnrollmentId signer\<rparr>"
  shows "(Sign sg ''hello world!!!'' w2 = (Inl e, w3) \<longrightarrow>
            DeserializeSigner x p raw w =
              Return (Inl (Wrapped e ''failed generating verification signature''), w3))
       \<and> (Sign sg ''hello world!!!'' w2 = (Inr sigma, w3)
            \<and> Verify (sid_identity sg) ''hello world!!!'' sigma w3 = (Some e, w4) \<longrightarrow>
            DeserializeSigner x p raw w =
              Return (Inl (Wrapped e ''failed verifying verification signature''), w4))"
  using assms unfolding DeserializeSigner_def Let_def
  by (auto split: outcome.splits sum.splits prod.splits option.splits)

text \<open>
  Claim C8. \<^verbatim>\<open>DeserializeSigner\<close> returns the error of \<^verbatim>\<open>Deserialize(raw, true)\<close>
  when that fails; when no key is stored under the identifier of the pseudonym public
  key it returns the error of the lookup, wrapped as the missing pseudonym secret; it
  returns a signer only when the signer has signed the message \<open>hello world!!!\<close> and
  \<^verbatim>\<open>Verify\<close> of its identity has returned nil on that signature; and when the
  signature cannot be made, or \<^verbatim>\<open>Verify\<close> returns an error, it returns that error
  wrapped, and no signer.
\<close>

theorem DeserializeSigner_self_test:
  "(\<forall>e w1. Deserialize x (p_support p) raw True w = Return (Inl e, w1) \<longrightarrow>
       DeserializeSigner x p raw w = Return (Inl e, w1))
   \<and> (\<forall>r w1 e w2.
         Deserialize x (p_support p) raw True w = Return (Inr r, w1)
         \<and> csp_GetKey (csp (p_support p))
              (key_SKI (csp (p_support p)) (d_NymPublicKey r)) w1 = (Inl e, w2) \<longrightarrow>
         DeserializeSigner x p raw w =
           Return (Inl (Wrapped e ''cannot find nym secret key''), w2))
   \<and> (\<forall>sg w'. DeserializeSigner x p raw w = Return (Inr sg, w') \<longrightarrow>
         (\<exists>r w1 w2 sigma w3.
            Deserialize x (p_support p) raw True w = Return (Inr r, w1)
            \<and> csp_GetKey (csp (p_support p))
                 (key_SKI (csp (p_support p)) (d_NymPublicKey r)) w1 = (Inr (NymKey sg), w2)
            \<and> sid_identity sg = d_id r
            \<and> Sign sg ''hello world!!!'' w2 = (Inr sigma, w3)
            \<and> Verify (sid_identity sg) ''hello world!!!'' sigma w3 = (None, w')))
   \<and> (\<forall>r w1 nymKey w2 signer sg e w3 sigma w4.
         Deserialize x (p_support p) raw True w = Return (Inr r, w1)
         \<and> csp_GetKey (csp (p_support p))
              (key_SKI (csp (p_support p)) (d_NymPublicKey r)) w1 = (Inr nymKey, w2)
         \<and> conf_Signer (conf p) = Some signer
         \<and> sg = \<lparr>sid_identity = d_id r, Cred = signer_Cred signer, UserKey = userKey p,
                  NymKey = nymKey, enrollmentId = signer_EnrollmentId signer\<rparr> \<longrightarrow>
         (Sign sg ''hello world!!!'' w2 = (Inl e, w3) \<longrightarrow>
            DeserializeSigner x p raw w =
              Return (Inl (Wrapped e ''failed generating verification signature''), w3))
         \<and> (Sign sg ''hello world!!!'' w2 = (Inr sigma, w3)
              \<and> Verify (sid_identity sg) ''hello world!!!'' sigma w3 = (Some e, w4) \<longrightarrow>
            DeserializeSigner x p raw w =
              Return (Inl (Wrapped e ''failed verifying verification signature''), w4)))"
proof (intro conjI allI impI)
  fix e w1
  assume "Deserialize x (p_support p) raw True w = Return (Inl e, w1)"
  then show "DeserializeSigner x p raw w = Return (Inl e, w1)"
    by (simp add: DeserializeSigner_def)
next
  fix r w1 e w2
  assume "Deserialize x (p_support p) raw True w = Return (Inr r, w1)
         \<and> csp_GetKey (csp (p_support p))
              (key_SKI (csp (p_support p)) (d_NymPublicKey r)) w1 = (Inl e, w2)"
  then show "DeserializeSigner x p raw w =
           Return (Inl (Wrapped e ''cannot find nym secret key''), w2)"
    by (simp add: DeserializeSigner_def)
next
  fix sg w'
  assume "DeserializeSigner x p raw w = Return (Inr sg, w')"
  then show "\<exists>r w1 w2 sigma w3.
            Deserialize x (p_support p) raw True w = Return (Inr r, w1)
            \<and> csp_GetKey (csp (p_support p))
                 (key_SKI (csp (p_support p)) (d_NymPublicKey r)) w1 = (Inr (NymKey sg), w2)
            \<and> sid_identity sg = d_id r
            \<and> Sign sg ''hello world!!!'' w2 = (Inr sigma, w3)
            \<and> Verify (sid_identity sg) ''hello world!!!'' sigma w3 = (None, w')"
    by (rule DeserializeSigner_success)
next
  fix r w1 nymKey w2 signer sg e w3 sigma w4
  assume h: "Deserialize x (p_support p) raw True w = Return (Inr r, w1)
         \<and> csp_GetKey (csp (p_support p))
              (key_SKI (csp (p_support p)) (d_NymPublicKey r)) w1 = (Inr nymKey, w2)
         \<and> conf_Signer (conf p) = Some signer
         \<and> sg = \<lparr>sid_identity = d_id r, Cred = signer_Cred signer, UserKey = userKey p,
                  NymKey = nymKey, enrollmentId = signer_EnrollmentId signer\<rparr>"
  {
    assume "Sign sg ''hello world!!!'' w2 = (Inl e, w3)"
    with h DeserializeSigner_self_test_fails [of x p raw w r w1 nymKey w2 signer sg e w3]
    show "DeserializeSigner x p raw w =
              Return (Inl (Wrapped e ''failed generating verification signature''), w3)"
      by blast
  }
  {
    assume "Sign sg ''hello world!!!'' w2 = (Inr sigma, w3)
              \<and> Verify (sid_identity sg) ''hello world!!!'' sigma w3 = (Some e, w4)"
    with h DeserializeSigner_self_test_fails [of x p raw w r w1 nymKey w2 signer sg e w3 sigma w4]
    show "DeserializeSigner x p raw w =
              Return (Inl (Wrapped e ''failed verifying verification signature''), w4)"
      by blast
  }
qed

lemma demo_provider_fields:
  "p_support demo_provider = demo_support"
  "conf_Signer (conf demo_provider) = Some demo_signer"
  "userKey demo_provider = ''usk''"
  "signer_Cred demo_signer = ''cred''"
  "signer_EnrollmentId demo_signer = ''alice''"
  by (simp_all add: demo_provider_def demo_conf_def demo_signer_def)

lemma demo_GetKey:
  "csp_GetKey (csp demo_support) (key_SKI (csp demo_support) k) w =
     (case demo_store k of None \<Rightarrow> Inl (Errorf ''key not found'') | Some secret \<Rightarrow> Inr secret, Suc w)"
  by (simp add: demo_support_def demo_csp_def)

lemma demo_Sign:
  "Sign \<lparr>sid_identity = demo_identity k, Cred = c, UserKey = u, NymKey = n, enrollmentId = e\<rparr> msg w =
     (if n = ''unusable'' then Inl (Errorf ''cannot sign'') else Inr (n @ msg), Suc w)"
  by (simp add: Sign_def demo_identity_def demo_support_def demo_csp_def elems_def)

lemma demo_Verify:
  "Verify (demo_identity k) msg sig w =
     (if sig = ''secret-of-'' @ k @ msg then None else Some (Errorf ''invalid signature''), Suc w)"
  by (simp add: Verify_def demo_identity_def demo_support_def demo_csp_def)

lemma demo_DeserializeSigner: "DeserializeSigner demo_deps demo_provider ''OrgXMSP/I:ab:cd'' 0 =
     Return (Inr (demo_signing ''abcd'' ''secret-of-abcd''), 5)"
    by (simp add: DeserializeSigner_def demo_provider_fields
          demo_Deserialize_accepts [of "''abcd''" "''OrgXMSP/I:ab:cd''" "''I:ab:cd''", simplified]
          demo_GetKey demo_store_def demo_Sign demo_Verify demo_signing_def)

theorem DeserializeSigner_self_test_witness:
  "DeserializeSigner demo_deps demo_provider ''OrgXMSP/I:ab:cd:forged'' 0 =
     Return (Inl (Wrapped (Errorf ''invalid proof'') ''cannot deserialize, invalid identity''), 2)
   \<and> DeserializeSigner demo_deps demo_provider ''OrgXMSP/I:qr:st'' 0 =
     Return (Inl (Wrapped (Errorf ''key not found'') ''cannot find nym secret key''), 3)
   \<and> DeserializeSigner demo_deps demo_provider ''OrgXMSP/I:mn:op'' 0 =
     Return (Inl (Wrapped (Errorf ''cannot sign'') ''failed generating verification signature''), 4)
   \<and> DeserializeSigner demo_deps demo_provider ''OrgXMSP/I:wx:yz'' 0 =
     Return (Inl (Wrapped (Errorf ''invalid signature'')
                    ''failed verifying verification signature''), 5)
   \<and> DeserializeSigner demo_deps demo_provider ''OrgXMSP/I:ab:cd'' 0 =
     Return (Inr (demo_signing ''abcd'' ''secret-of-abcd''), 5)
   \<and> Sign (demo_signing ''abcd'' ''secret-of-abcd'') ''hello world!!!'' 3 =
     (Inr ''secret-of-abcdhello world!!!'', 4)
   \<and> Verify (demo_identity ''abcd'') ''hello world!!!'' ''secret-of-abcdhello world!!!'' 4 =
     (None, 5)"
proof -
  note T = DeserializeSigner_self_test [of demo_deps demo_provider _ 0, unfolded demo_provider_fields]
  note rejects = T [THEN conjunct1, rule_format]
  note no_secret = T [THEN conjunct2, THEN conjunct1, rule_format]
  note only_tested = T [THEN conjunct2, THEN conjunct2, THEN conjunct1, rule_format]
  note test_fails = T [THEN conjunct2, THEN conjunct2, THEN conjunct2, rule_format]
  note sign_fails = test_fails [THEN conjunct1, rule_format]
  note verify_fails = test_fails [THEN conjunct2, rule_format]
  note acc = demo_Deserialize_accepts [simplified]
  have r1: "DeserializeSigner demo_deps demo_provider ''OrgXMSP/I:ab:cd:forged'' 0 =
     Return (Inl (Wrapped (Errorf ''invalid proof'') ''cannot deserialize, invalid identity''), 2)"
    by (rule rejects) (rule demo_Deserialize_rejects)
  have g2: "csp_GetKey (csp demo_support) (key_SKI (csp demo_support) ''qrst'') 2 =
              (Inl (Errorf ''key not found''), 3)"
    by (simp add: demo_GetKey demo_store_def)
  have r2: "DeserializeSigner demo_deps demo_provider ''OrgXMSP/I:qr:st'' 0 =
     Return (Inl (Wrapped (Errorf ''key not found'') ''cannot find nym secret key''), 3)"
    by (rule no_secret [where r = "\<lparr>d_id = demo_identity ''qrst'', d_NymPublicKey = ''qrst'',
                  d_si = \<lparr>si_Mspid = ''OrgXMSP'', si_IdBytes = ''I:qr:st''\<rparr>,
                  d_ou = demo_ou, d_role = demo_role\<rparr>" and ?w1.0 = 2])
       (simp add: acc g2)
  have g3: "csp_GetKey (csp demo_support) (key_SKI (csp demo_support) ''mnop'') 2 =
              (Inr ''unusable'', 3)"
    by (simp add: demo_GetKey demo_store_def)
  have s3: "Sign (demo_signing ''mnop'' ''unusable'') ''hello world!!!'' 3 =
              (Inl (Errorf ''cannot sign''), 4)"
    by (simp add: demo_signing_def demo_Sign)
  have r3: "DeserializeSigner demo_deps demo_provider ''OrgXMSP/I:mn:op'' 0 =
     Return (Inl (Wrapped (Errorf ''cannot sign'') ''failed generating verification signature''), 4)"
    by (rule sign_fails [where r = "\<lparr>d_id = demo_identity ''mnop'', d_NymPublicKey = ''mnop'',
                  d_si = \<lparr>si_Mspid = ''OrgXMSP'', si_IdBytes = ''I:mn:op''\<rparr>,
                  d_ou = demo_ou, d_role = demo_role\<rparr>" and ?w1.0 = 2 and ?w2.0 = 3
                  and nymKey = "''unusable''" and signer = demo_signer
                  and sg = "demo_signing ''mnop'' ''unusable''"])
       (simp_all add: acc g3 demo_Sign demo_signing_def demo_provider_fields)
  have g4: "csp_GetKey (csp demo_support) (key_SKI (csp demo_support) ''wxyz'') 2 =
              (Inr ''stale'', 3)"
    by (simp add: demo_GetKey demo_store_def)
  have s4: "Sign (demo_signing ''wxyz'' ''stale'') ''hello world!!!'' 3 =
              (Inr ''stalehello world!!!'', 4)"
    by (simp add: demo_signing_def demo_Sign)
  have v4: "Verify (demo_identity ''wxyz'') ''hello world!!!'' ''stalehello world!!!'' 4 =
              (Some (Errorf ''invalid signature''), 5)"
    by (simp add: demo_Verify)
  have r4: "DeserializeSigner demo_deps demo_provider ''OrgXMSP/I:wx:yz'' 0 =
     Return (Inl (Wrapped (Errorf ''invalid signature'')
                    ''failed verifying verification signature''), 5)"
    by (rule verify_fails [where r = "\<lparr>d_id = demo_identity ''wxyz'', d_NymPublicKey = ''wxyz'',
                  d_si = \<lparr>si_Mspid = ''OrgXMSP'', si_IdBytes = ''I:wx:yz''\<rparr>,
                  d_ou = demo_ou, d_role = demo_role\<rparr>" and ?w1.0 = 2 and ?w2.0 = 3
                  and nymKey = "''stale''" and signer = demo_signer
                  and sg = "demo_signing ''wxyz'' ''stale''"
                  and sigma = "''stalehello world!!!''" and ?w3.0 = 4])
       (simp_all add: acc g4 demo_Sign demo_Verify demo_signing_def demo_provider_fields)
  have s5: "Sign (demo_signing ''abcd'' ''secret-of-abcd'') ''hello world!!!'' 3 =
     (Inr ''secret-of-abcdhello world!!!'', 4)"
    by (simp add: demo_signing_def demo_Sign)
  have v5: "Verify (demo_identity ''abcd'') ''hello world!!!'' ''secret-of-abcdhello world!!!'' 4 =
     (None, 5)"
    by (simp add: demo_Verify)
  from r1 r2 r3 r4 demo_DeserializeSigner s5 v5 show ?thesis by simp
qed

subsection \<open>Construction of the provider\<close>

text \<open>
  Claim C6. When the configuration parses to one without a signer block,
  \<^verbatim>\<open>NewProvider\<close> returns an error and no provider; when the engine is built and
  both public keys are imported, the error is the one that names the provider as
  verification only.
\<close>

theorem NewProvider_requires_signer:
  assumes "Unmarshal_IdemixMSPConfig x (mspconf_Config c1) = Inr cfg"
    and "conf_Signer cfg = None"
  shows "(\<exists>e w'. NewProvider x (Some c1) svcs w = (Inl e, w'))
    \<and> (\<forall>engine w1 issuerKey w2 revocationKey w3.
          idemix_New x svcs w = (Inr engine, w1)
          \<and> csp_KeyImport engine (conf_Ipk cfg)
               (IdemixIssuerPublicKeyImportOpts True (AttributeNames x)) w1 = (Inr issuerKey, w2)
          \<and> csp_KeyImport engine (conf_RevocationPk cfg)
               (IdemixRevocationPublicKeyImportOpts True) w2 = (Inr revocationKey, w3)
          \<longrightarrow> NewProvider x (Some c1) svcs w =
                (Inl (Errorf
                   ''idemix provider setup as verification only provider (no key material found)''),
                 w3))"
  using assms by (auto simp: NewProvider_def split: sum.splits prod.splits)

theorem NewProvider_requires_signer_witness:
  "Unmarshal_IdemixMSPConfig demo_deps (mspconf_Config \<lparr>mspconf_Config = ''conf:verifier''\<rparr>)
     = Inr (demo_conf None)
   \<and> conf_Signer (demo_conf None) = None
   \<and> NewProvider demo_deps (Some \<lparr>mspconf_Config = ''conf:verifier''\<rparr>) demo_services 0
     = (Inl (Errorf
          ''idemix provider setup as verification only provider (no key material found)''), 2)"
proof -
  have a: "Unmarshal_IdemixMSPConfig demo_deps (mspconf_Config \<lparr>mspconf_Config = ''conf:verifier''\<rparr>)
     = Inr (demo_conf None)"
    by (simp add: demo_deps_def table_Unmarshal_def conf_table_def)
  have b: "conf_Signer (demo_conf None) = None"
    by (simp add: demo_conf_def)
  have c: "idemix_New demo_deps demo_services 0 = (Inr demo_csp, 0)"
    by (simp add: demo_deps_def)
  have d: "csp_KeyImport demo_csp (conf_Ipk (demo_conf None))
               (IdemixIssuerPublicKeyImportOpts True (AttributeNames demo_deps)) 0 = (Inr ''ipk'', 1)"
    by (simp add: demo_csp_def demo_conf_def)
  have e: "csp_KeyImport demo_csp (conf_RevocationPk (demo_conf None))
               (IdemixRevocationPublicKeyImportOpts True) 1 = (Inr ''rpk'', 2)"
    by (simp add: demo_csp_def demo_conf_def)
  from NewProvider_requires_signer [OF a b, of demo_services 0] a b c d e
  show ?thesis by blast
qed

text \<open>Every provider that \<^verbatim>\<open>NewProvider\<close> returns has a signer block.\<close>

lemma NewProvider_returns_signer:
  "NewProvider x conf1 svcs w = (Inr p, w') \<Longrightarrow> conf_Signer (conf p) \<noteq> None"
  by (auto simp: NewProvider_def split: sum.splits prod.splits option.splits)

subsection \<open>Issuance\<close>

text \<open>
  Claim C7. When \<^verbatim>\<open>Identity\<close> returns a serialized identity and no error, the
  identity is the serialization of the one built over the proof that the engine signed,
  and the audit information returned with it is the serialization of the record holding
  what that call of the engine left in \<^verbatim>\<open>Info\<close> and the three attributes, in this
  order: the organizational unit identifier of the signer block, the decimal digits of
  the role code, the enrollment identifier of the signer block.
\<close>

theorem Identity_audit_info:
  assumes "Identity x p w = Return ((Some raw, a, None), w')"
  shows "\<exists>signer nymKey nymPublicKey w2 proof info w3 i infoRaw.
           conf_Signer (conf p) = Some signer
         \<and> csp_Sign (csp (p_support p)) (userKey p) [] (signOpts p signer nymKey) w2
             = ((Inr proof, info), w3)
         \<and> newIdentity (p_support p) nymPublicKey (signerRole x p signer) (signerOU p signer) proof
             = Return i
         \<and> Serialize x i = Inr raw
         \<and> AuditInfo_Bytes x
              \<lparr>IdemixSignatureInfo = info,
               Attributes = [signer_OrganizationalUnitIdentifier signer,
                             Itoa (getIdemixRoleFromMSPRole x (signerRole x p signer)),
                             signer_EnrollmentId signer]\<rparr>
             = Inr infoRaw
         \<and> a = Some infoRaw"
  using assms unfolding Identity_def Let_def errors_WithMessage_def
  by (auto split: outcome.splits sum.splits prod.splits option.splits if_splits; blast)

lemma demo_Identity:
  "Identity demo_deps demo_provider 0 =
     Return ((Some ''OrgXMSP/I:ab:cd'', Some ''randomness;manufacturing;2;alice'', None), 4)"
  by (simp add: Identity_def demo_defs signerRole_def signerOU_def credentialOpts_def signOpts_def
        newIdentity_def Serialize_def GetSignerService_def GetMSPIdentifier_def
        len_def slice_to_def slice_from_def elems_def Itoa_def digit_def errors_WithMessage_def)

theorem Identity_audit_info_witness:
  "Identity demo_deps demo_provider 0 =
     Return ((Some ''OrgXMSP/I:ab:cd'', Some ''randomness;manufacturing;2;alice'', None), 4)
   \<and> (\<exists>info. AuditInfo_Bytes demo_deps
          \<lparr>IdemixSignatureInfo = info, Attributes = [''manufacturing'', ''2'', ''alice'']\<rparr>
        = Inr ''randomness;manufacturing;2;alice'')"
proof -
  from Identity_audit_info [OF demo_Identity] obtain signer info where
    c: "conf_Signer (conf demo_provider) = Some signer"
    and b: "AuditInfo_Bytes demo_deps
              \<lparr>IdemixSignatureInfo = info,
               Attributes = [signer_OrganizationalUnitIdentifier signer,
                             Itoa (getIdemixRoleFromMSPRole demo_deps
                                     (signerRole demo_deps demo_provider signer)),
                             signer_EnrollmentId signer]\<rparr>
            = Inr ''randomness;manufacturing;2;alice''"
    by auto
  from c have s: "signer = demo_signer"
    by (simp add: demo_provider_fields)
  have r: "Itoa (getIdemixRoleFromMSPRole demo_deps
                   (signerRole demo_deps demo_provider demo_signer)) = ''2''"
    by (simp add: demo_deps_def signerRole_def demo_signer_def Itoa_def digit_def)
  have f: "signer_OrganizationalUnitIdentifier demo_signer = ''manufacturing''"
    by (simp add: demo_signer_def)
  from b show ?thesis
    unfolding s r f demo_provider_fields using demo_Identity by blast
qed

text \<open>
  \<^verbatim>\<open>Identity\<close> returns no error and no identity in one case only: the engine
  answered the check of the credential with invalid and no error, and
  \<^verbatim>\<open>errors.WithMessage\<close> of a nil error is nil.
\<close>

lemma Identity_without_error_or_identity:
  assumes "Identity x p w = Return ((None, a, None), w')"
  shows "a = None \<and> (\<exists>signer w1.
           conf_Signer (conf p) = Some signer
         \<and> csp_Verify (csp (p_support p)) (userKey p) (signer_Cred signer) []
              (credentialOpts x p signer) w1 = ((False, None), w'))"
  using assms unfolding Identity_def Let_def errors_WithMessage_def
  by (auto split: outcome.splits sum.splits prod.splits option.splits if_splits)

subsection \<open>Serialization and deserialization\<close>

text \<open>What \<^verbatim>\<open>Deserialize\<close> has parsed when it returns an identity.\<close>

lemma Deserialize_accepted_parse:
  assumes "Deserialize x s raw checkValidity w = Return (Inr r, w')"
  shows "\<exists>serialized nx ny.
           Unmarshal_SerializedIdentity x raw = Inr (d_si r)
         \<and> Unmarshal_SerializedIdemixIdentity x (si_IdBytes (d_si r)) = Inr serialized
         \<and> ser_NymX serialized = Some nx \<and> ser_NymY serialized = Some ny
         \<and> Unmarshal_OrganizationUnit x (ser_Ou serialized) = Inr (d_ou r)
         \<and> Unmarshal_MSPRole x (ser_Role serialized) = Inr (d_role r)
         \<and> newIdentity s (d_NymPublicKey r) (d_role r) (d_ou r) (ser_Proof serialized)
             = Return (d_id r)"
  using assms unfolding Deserialize_def
  by (auto split: sum.splits prod.splits outcome.splits option.splits if_splits)

text \<open>
  Serializing what was parsed. The envelope is written with the name of the support,
  the pseudonym with the bytes of the imported key cut at their midpoint, and each
  message by the codec.
\<close>

lemma Serialize_of_parsed:
  assumes acc: "Deserialize x s raw checkValidity w = Return (Inr r, w')"
    and authority: "si_Mspid (d_si r) = name s"
    and outer: "Marshal_SerializedIdentity x (d_si r) = Inr raw"
    and inner: "Unmarshal_SerializedIdemixIdentity x (si_IdBytes (d_si r)) = Inr serialized"
               "Marshal_SerializedIdemixIdentity x serialized = Inr (si_IdBytes (d_si r))"
    and ou: "Marshal_OrganizationUnit x (d_ou r) = Inr (ser_Ou serialized)"
    and role: "Marshal_MSPRole x (d_role r) = Inr (ser_Role serialized)"
    and halves: "length (elems (ser_NymX serialized)) = length (elems (ser_NymY serialized))"
    and key: "key_Bytes (csp s) (d_NymPublicKey r)
                = Inr (Some (elems (ser_NymX serialized) @ elems (ser_NymY serialized)))"
  shows "Serialize x (d_id r) = Inr raw"
proof -
  from Deserialize_accepted_parse [OF acc] inner(1) obtain nx ny where
    nx: "ser_NymX serialized = Some nx" and ny: "ser_NymY serialized = Some ny"
    and built: "newIdentity s (d_NymPublicKey r) (d_role r) (d_ou r) (ser_Proof serialized)
                  = Return (d_id r)"
    by auto
  from built key have i: "d_id r =
      \<lparr>NymPublicKey = d_NymPublicKey r, support = s,
       ident = \<lparr>ii_Mspid = name s, ii_Id = nx @ ny\<rparr>,
       Role = d_role r, OU = d_ou r, associationProof = ser_Proof serialized\<rparr>"
    by (simp add: newIdentity_def nx ny elems_def)
  from halves have l: "length nx = length ny"
    by (simp add: nx ny elems_def)
  have m: "\<lparr>ser_NymX = Some nx, ser_NymY = Some ny, ser_Ou = ser_Ou serialized,
            ser_Role = ser_Role serialized, ser_Proof = ser_Proof serialized\<rparr> = serialized"
    using nx ny by simp
  have e: "\<lparr>si_Mspid = name s, si_IdBytes = si_IdBytes (d_si r)\<rparr> = d_si r"
    using authority by simp
  show ?thesis
    unfolding i Serialize_def
    using key l by (simp add: nx ny elems_def len_def slice_to_def slice_from_def ou role
                      GetMSPIdentifier_def m inner(2) e outer)
qed

text \<open>The verification of the proof reads neither the pseudonym key nor the identifier.\<close>

lemma Validate_ignores_key:
  "Validate x (i\<lparr>NymPublicKey := k, ident := d\<rparr>) w = Validate x i w"
  by (simp add: Validate_def verifyProof_def engineVerdict_def proofOpts_def GetMSPIdentifier_def)

lemma Deserialize_of_serialized:
  assumes built: "newIdentity s k role ou evidence = Return i"
    and key: "key_Bytes (csp s) k = Inr (Some kb)"
    and ou: "Marshal_OrganizationUnit x ou = Inr ob" "Unmarshal_OrganizationUnit x ob = Inr ou"
    and role: "Marshal_MSPRole x role = Inr rb" "Unmarshal_MSPRole x rb = Inr role"
    and msg: "m = \<lparr>ser_NymX = Some (take (length kb div 2) kb),
                    ser_NymY = Some (drop (length kb div 2) kb),
                    ser_Ou = ob, ser_Role = rb, ser_Proof = evidence\<rparr>"
    and inner: "Marshal_SerializedIdemixIdentity x m = Inr ib"
               "Unmarshal_SerializedIdemixIdentity x ib = Inr m"
    and outer: "Marshal_SerializedIdentity x \<lparr>si_Mspid = name s, si_IdBytes = ib\<rparr> = Inr out"
               "Unmarshal_SerializedIdentity x out = Inr \<lparr>si_Mspid = name s, si_IdBytes = ib\<rparr>"
    and import: "csp_KeyImport (csp s) kb (IdemixNymPublicKeyImportOpts True) w = (Inr k', w1)"
                "key_Bytes (csp s) k' = Inr (Some kb)"
  shows "Serialize x i = Inr out
       \<and> (\<exists>r. Deserialize x s out False w = Return (Inr r, w1)
              \<and> ident (d_id r) = ident i \<and> Role (d_id r) = Role i \<and> OU (d_id r) = OU i)
       \<and> (\<forall>w2. Validate x i w1 = Return (None, w2) \<longrightarrow>
             (\<exists>r. Deserialize x s out True w = Return (Inr r, w2)
                \<and> ident (d_id r) = ident i \<and> Role (d_id r) = Role i \<and> OU (d_id r) = OU i))"
proof -
  from built key have i: "i =
      \<lparr>NymPublicKey = k, support = s, ident = \<lparr>ii_Mspid = name s, ii_Id = kb\<rparr>,
       Role = role, OU = ou, associationProof = evidence\<rparr>"
    by (simp add: newIdentity_def elems_def)
  have ser: "Serialize x i = Inr out"
    unfolding i Serialize_def
    by (simp add: key len_def slice_to_def slice_from_def ou role msg [symmetric] inner outer
          GetMSPIdentifier_def)
  let ?j = "\<lparr>NymPublicKey = k', support = s, ident = \<lparr>ii_Mspid = name s, ii_Id = kb\<rparr>,
             Role = role, OU = ou, associationProof = evidence\<rparr>"
  have j: "newIdentity s k' role ou evidence = Return ?j"
    by (simp add: newIdentity_def import(2) elems_def)
  have v: "Validate x ?j w1 = Validate x i w1"
    using Validate_ignores_key
            [where x = x and i = i and k = k' and d = "\<lparr>ii_Mspid = name s, ii_Id = kb\<rparr>"
               and w = w1]
    by (simp add: i)
  have parse: "Deserialize x s out checkValidity w =
      (if checkValidity
       then (case Validate x i w1 of
               Panic q \<Rightarrow> Panic q
             | Return (Some err, w2) \<Rightarrow>
                 Return (Inl (Wrapped err ''cannot deserialize, invalid identity''), w2)
             | Return (None, w2) \<Rightarrow>
                 Return (Inr \<lparr>d_id = ?j, d_NymPublicKey = k',
                              d_si = \<lparr>si_Mspid = name s, si_IdBytes = ib\<rparr>,
                              d_ou = ou, d_role = role\<rparr>, w2))
       else Return (Inr \<lparr>d_id = ?j, d_NymPublicKey = k',
                         d_si = \<lparr>si_Mspid = name s, si_IdBytes = ib\<rparr>,
                         d_ou = ou, d_role = role\<rparr>, w1))" for checkValidity
    unfolding Deserialize_def
    by (simp add: outer inner msg elems_def import(1) ou role j [unfolded msg] v)
  from ser parse [of False] parse [of True] show ?thesis
    by (auto simp: i)
qed

text \<open>
  Claim C1, as the code has it. Serializing the identity that \<^verbatim>\<open>Deserialize\<close>
  returned gives the bytes it was given when the envelope names the authority of the
  support, the two halves of the pseudonym have the same length, the imported key
  returns the bytes it was imported from, and each parsed message (envelope, inner
  identity, organizational unit, role) marshals to the bytes it was parsed from. In
  the other direction, for an identity built by \<^verbatim>\<open>newIdentity\<close> whose key has
  bytes, when each message that \<^verbatim>\<open>Serialize\<close> marshals unmarshals to itself and the
  engine imports the bytes of the key to a key with these bytes, \<^verbatim>\<open>Serialize\<close>
  succeeds and \<^verbatim>\<open>Deserialize\<close> of its output returns an identity with the same
  identifier, role and organizational unit: without the check of validity, and with it
  whenever the identity validates.
\<close>

theorem Serialize_Deserialize_roundtrip:
  "(Deserialize x s raw checkValidity w = Return (Inr r, w')
      \<and> si_Mspid (d_si r) = name s
      \<and> Marshal_SerializedIdentity x (d_si r) = Inr raw
      \<and> Unmarshal_SerializedIdemixIdentity x (si_IdBytes (d_si r)) = Inr serialized
      \<and> Marshal_SerializedIdemixIdentity x serialized = Inr (si_IdBytes (d_si r))
      \<and> Marshal_OrganizationUnit x (d_ou r) = Inr (ser_Ou serialized)
      \<and> Marshal_MSPRole x (d_role r) = Inr (ser_Role serialized)
      \<and> length (elems (ser_NymX serialized)) = length (elems (ser_NymY serialized))
      \<and> key_Bytes (csp s) (d_NymPublicKey r)
           = Inr (Some (elems (ser_NymX serialized) @ elems (ser_NymY serialized)))
    \<longrightarrow> Serialize x (d_id r) = Inr raw)
   \<and> (newIdentity s k role ou evidence = Return i
      \<and> key_Bytes (csp s) k = Inr (Some kb)
      \<and> Marshal_OrganizationUnit x ou = Inr ob \<and> Unmarshal_OrganizationUnit x ob = Inr ou
      \<and> Marshal_MSPRole x role = Inr rb \<and> Unmarshal_MSPRole x rb = Inr role
      \<and> m = \<lparr>ser_NymX = Some (take (length kb div 2) kb),
               ser_NymY = Some (drop (length kb div 2) kb),
               ser_Ou = ob, ser_Role = rb, ser_Proof = evidence\<rparr>
      \<and> Marshal_SerializedIdemixIdentity x m = Inr ib
      \<and> Unmarshal_SerializedIdemixIdentity x ib = Inr m
      \<and> Marshal_SerializedIdentity x \<lparr>si_Mspid = name s, si_IdBytes = ib\<rparr> = Inr out
      \<and> Unmarshal_SerializedIdentity x out = Inr \<lparr>si_Mspid = name s, si_IdBytes = ib\<rparr>
      \<and> csp_KeyImport (csp s) kb (IdemixNymPublicKeyImportOpts True) v = (Inr k', v1)
      \<and> key_Bytes (csp s) k' = Inr (Some kb)
    \<longrightarrow> Serialize x i = Inr out
       \<and> (\<exists>r. Deserialize x s out False v = Return (Inr r, v1)
              \<and> ident (d_id r) = ident i \<and> Role (d_id r) = Role i \<and> OU (d_id r) = OU i)
       \<and> (\<forall>v2. Validate x i v1 = Return (None, v2) \<longrightarrow>
             (\<exists>r. Deserialize x s out True v = Return (Inr r, v2)
                \<and> ident (d_id r) = ident i \<and> Role (d_id r) = Role i \<and> OU (d_id r) = OU i)))"
proof (intro conjI impI)
  assume "Deserialize x s raw checkValidity w = Return (Inr r, w')
      \<and> si_Mspid (d_si r) = name s
      \<and> Marshal_SerializedIdentity x (d_si r) = Inr raw
      \<and> Unmarshal_SerializedIdemixIdentity x (si_IdBytes (d_si r)) = Inr serialized
      \<and> Marshal_SerializedIdemixIdentity x serialized = Inr (si_IdBytes (d_si r))
      \<and> Marshal_OrganizationUnit x (d_ou r) = Inr (ser_Ou serialized)
      \<and> Marshal_MSPRole x (d_role r) = Inr (ser_Role serialized)
      \<and> length (elems (ser_NymX serialized)) = length (elems (ser_NymY serialized))
      \<and> key_Bytes (csp s) (d_NymPublicKey r)
           = Inr (Some (elems (ser_NymX serialized) @ elems (ser_NymY serialized)))"
  then show "Serialize x (d_id r) = Inr raw"
    using Serialize_of_parsed [of x s raw checkValidity w r w' serialized] by blast
next
  assume h: "newIdentity s k role ou evidence = Return i
      \<and> key_Bytes (csp s) k = Inr (Some kb)
      \<and> Marshal_OrganizationUnit x ou = Inr ob \<and> Unmarshal_OrganizationUnit x ob = Inr ou
      \<and> Marshal_MSPRole x role = Inr rb \<and> Unmarshal_MSPRole x rb = Inr role
      \<and> m = \<lparr>ser_NymX = Some (take (length kb div 2) kb),
               ser_NymY = Some (drop (length kb div 2) kb),
               ser_Ou = ob, ser_Role = rb, ser_Proof = evidence\<rparr>
      \<and> Marshal_SerializedIdemixIdentity x m = Inr ib
      \<and> Unmarshal_SerializedIdemixIdentity x ib = Inr m
      \<and> Marshal_SerializedIdentity x \<lparr>si_Mspid = name s, si_IdBytes = ib\<rparr> = Inr out
      \<and> Unmarshal_SerializedIdentity x out = Inr \<lparr>si_Mspid = name s, si_IdBytes = ib\<rparr>
      \<and> csp_KeyImport (csp s) kb (IdemixNymPublicKeyImportOpts True) v = (Inr k', v1)
      \<and> key_Bytes (csp s) k' = Inr (Some kb)"
  have "Serialize x i = Inr out
       \<and> (\<exists>r. Deserialize x s out False v = Return (Inr r, v1)
              \<and> ident (d_id r) = ident i \<and> Role (d_id r) = Role i \<and> OU (d_id r) = OU i)
       \<and> (\<forall>v2. Validate x i v1 = Return (None, v2) \<longrightarrow>
             (\<exists>r. Deserialize x s out True v = Return (Inr r, v2)
                \<and> ident (d_id r) = ident i \<and> Role (d_id r) = Role i \<and> OU (d_id r) = OU i))"
    by (rule Deserialize_of_serialized [of s k role ou evidence i kb x ob rb m ib out v k' v1])
       (use h in blast)+
  then show "Serialize x i = Inr out"
    and "\<exists>r. Deserialize x s out False v = Return (Inr r, v1)
              \<and> ident (d_id r) = ident i \<and> Role (d_id r) = Role i \<and> OU (d_id r) = OU i"
    and "\<forall>v2. Validate x i v1 = Return (None, v2) \<longrightarrow>
             (\<exists>r. Deserialize x s out True v = Return (Inr r, v2)
                \<and> ident (d_id r) = ident i \<and> Role (d_id r) = Role i \<and> OU (d_id r) = OU i)"
    by blast+
qed

text \<open>
  Claim C1 as stated asks for the original bytes back from every accepted input. In the
  environment, where every message of a table and its bytes are recovered from each
  other, \<^verbatim>\<open>Deserialize\<close> with the check of validity accepts an envelope that names
  another authority, and an envelope whose pseudonym is cut as one byte and three; both
  give the same identity, and \<^verbatim>\<open>Serialize\<close> of it writes the name of the support
  and the pseudonym cut at its midpoint.
\<close>

lemma demo_Serialize:
  "Serialize demo_deps (demo_identity ''abcd'') = Inr ''OrgXMSP/I:ab:cd''"
  by (simp add: Serialize_def demo_defs GetMSPIdentifier_def len_def slice_to_def slice_from_def)

lemma demo_Deserialize_foreign:
  "Deserialize demo_deps demo_support ''OtherMSP/I:ab:cd'' True 0 =
     Return (Inr \<lparr>d_id = demo_identity ''abcd'', d_NymPublicKey = ''abcd'',
                  d_si = \<lparr>si_Mspid = ''OtherMSP'', si_IdBytes = ''I:ab:cd''\<rparr>,
                  d_ou = demo_ou, d_role = demo_role\<rparr>, 2)"
  by (simp add: Deserialize_def demo_defs GetMSPIdentifier_def elems_def newIdentity_def
        Validate_def verifyProof_def engineVerdict_def proofOpts_def)

lemma demo_Deserialize_uneven:
  "Deserialize demo_deps demo_support ''OrgXMSP/I:a:bcd'' True 0 =
     Return (Inr \<lparr>d_id = demo_identity ''abcd'', d_NymPublicKey = ''abcd'',
                  d_si = \<lparr>si_Mspid = ''OrgXMSP'', si_IdBytes = ''I:a:bcd''\<rparr>,
                  d_ou = demo_ou, d_role = demo_role\<rparr>, 2)"
  by (simp add: Deserialize_def demo_defs GetMSPIdentifier_def elems_def newIdentity_def
        Validate_def verifyProof_def engineVerdict_def proofOpts_def)

theorem Serialize_Deserialize_counterexample:
  "Deserialize demo_deps demo_support ''OtherMSP/I:ab:cd'' True 0 =
     Return (Inr \<lparr>d_id = demo_identity ''abcd'', d_NymPublicKey = ''abcd'',
                  d_si = \<lparr>si_Mspid = ''OtherMSP'', si_IdBytes = ''I:ab:cd''\<rparr>,
                  d_ou = demo_ou, d_role = demo_role\<rparr>, 2)
   \<and> Deserialize demo_deps demo_support ''OrgXMSP/I:a:bcd'' True 0 =
     Return (Inr \<lparr>d_id = demo_identity ''abcd'', d_NymPublicKey = ''abcd'',
                  d_si = \<lparr>si_Mspid = ''OrgXMSP'', si_IdBytes = ''I:a:bcd''\<rparr>,
                  d_ou = demo_ou, d_role = demo_role\<rparr>, 2)
   \<and> Serialize demo_deps (demo_identity ''abcd'') = Inr ''OrgXMSP/I:ab:cd''
   \<and> Serialize demo_deps (demo_identity ''abcd'') \<noteq> Inr ''OtherMSP/I:ab:cd''
   \<and> Serialize demo_deps (demo_identity ''abcd'') \<noteq> Inr ''OrgXMSP/I:a:bcd''"
  by (simp add: demo_Serialize demo_Deserialize_foreign demo_Deserialize_uneven)

theorem Serialize_Deserialize_roundtrip_witness:
  "Deserialize demo_deps demo_support ''OrgXMSP/I:ab:cd'' True 0 =
     Return (Inr \<lparr>d_id = demo_identity ''abcd'', d_NymPublicKey = ''abcd'',
                  d_si = \<lparr>si_Mspid = ''OrgXMSP'', si_IdBytes = ''I:ab:cd''\<rparr>,
                  d_ou = demo_ou, d_role = demo_role\<rparr>, 2)
   \<and> Serialize demo_deps (demo_identity ''abcd'') = Inr ''OrgXMSP/I:ab:cd''
   \<and> newIdentity demo_support ''abcd'' demo_role demo_ou ''proof'' = Return (demo_identity ''abcd'')
   \<and> (\<exists>r. Deserialize demo_deps demo_support ''OrgXMSP/I:ab:cd'' False 5 = Return (Inr r, 6)
          \<and> ident (d_id r) = \<lparr>ii_Mspid = ''OrgXMSP'', ii_Id = ''abcd''\<rparr>
          \<and> Role (d_id r) = demo_role \<and> OU (d_id r) = demo_ou)"
proof -
  let ?r = "\<lparr>d_id = demo_identity ''abcd'', d_NymPublicKey = ''abcd'',
             d_si = \<lparr>si_Mspid = ''OrgXMSP'', si_IdBytes = ''I:ab:cd''\<rparr>,
             d_ou = demo_ou, d_role = demo_role\<rparr>"
  let ?m = "demo_inner (Some ''ab'') (Some ''cd'') ''proof''"
  note T = Serialize_Deserialize_roundtrip
    [where x = demo_deps and s = demo_support and raw = "''OrgXMSP/I:ab:cd''"
       and checkValidity = True and w = 0 and r = ?r and w' = 2 and serialized = ?m
       and k = "''abcd''" and role = demo_role and ou = demo_ou and evidence = "''proof''"
       and i = "demo_identity ''abcd''" and kb = "''abcd''" and ob = "''ou''" and rb = "''role''"
       and m = ?m and ib = "''I:ab:cd''" and out = "''OrgXMSP/I:ab:cd''" and v = 5
       and k' = "''abcd''" and ?v1.0 = 6]
  have acc: "Deserialize demo_deps demo_support ''OrgXMSP/I:ab:cd'' True 0 = Return (Inr ?r, 2)"
    using demo_Deserialize_accepts [of "''abcd''" "''OrgXMSP/I:ab:cd''" "''I:ab:cd''"] by simp
  have a: "si_Mspid (d_si ?r) = name demo_support
      \<and> Marshal_SerializedIdentity demo_deps (d_si ?r) = Inr ''OrgXMSP/I:ab:cd''
      \<and> Unmarshal_SerializedIdemixIdentity demo_deps (si_IdBytes (d_si ?r)) = Inr ?m
      \<and> Marshal_SerializedIdemixIdentity demo_deps ?m = Inr (si_IdBytes (d_si ?r))
      \<and> Marshal_OrganizationUnit demo_deps (d_ou ?r) = Inr (ser_Ou ?m)
      \<and> Marshal_MSPRole demo_deps (d_role ?r) = Inr (ser_Role ?m)
      \<and> length (elems (ser_NymX ?m)) = length (elems (ser_NymY ?m))
      \<and> key_Bytes (csp demo_support) (d_NymPublicKey ?r)
           = Inr (Some (elems (ser_NymX ?m) @ elems (ser_NymY ?m)))"
    by (simp add: demo_defs elems_def)
  have n: "newIdentity demo_support ''abcd'' demo_role demo_ou ''proof''
             = Return (demo_identity ''abcd'')"
    by (simp add: newIdentity_def demo_defs elems_def)
  have b: "key_Bytes (csp demo_support) ''abcd'' = Inr (Some ''abcd'')
      \<and> Marshal_OrganizationUnit demo_deps demo_ou = Inr ''ou''
      \<and> Unmarshal_OrganizationUnit demo_deps ''ou'' = Inr demo_ou
      \<and> Marshal_MSPRole demo_deps demo_role = Inr ''role''
      \<and> Unmarshal_MSPRole demo_deps ''role'' = Inr demo_role
      \<and> ?m = \<lparr>ser_NymX = Some (take (length ''abcd'' div 2) ''abcd''),
               ser_NymY = Some (drop (length ''abcd'' div 2) ''abcd''),
               ser_Ou = ''ou'', ser_Role = ''role'', ser_Proof = ''proof''\<rparr>
      \<and> Marshal_SerializedIdemixIdentity demo_deps ?m = Inr ''I:ab:cd''
      \<and> Unmarshal_SerializedIdemixIdentity demo_deps ''I:ab:cd'' = Inr ?m
      \<and> Marshal_SerializedIdentity demo_deps
           \<lparr>si_Mspid = name demo_support, si_IdBytes = ''I:ab:cd''\<rparr> = Inr ''OrgXMSP/I:ab:cd''
      \<and> Unmarshal_SerializedIdentity demo_deps ''OrgXMSP/I:ab:cd''
           = Inr \<lparr>si_Mspid = name demo_support, si_IdBytes = ''I:ab:cd''\<rparr>
      \<and> csp_KeyImport (csp demo_support) ''abcd'' (IdemixNymPublicKeyImportOpts True) 5
           = (Inr ''abcd'', 6)
      \<and> key_Bytes (csp demo_support) ''abcd'' = Inr (Some ''abcd'')"
    by (simp add: demo_defs)
  have f: "ident (demo_identity ''abcd'') = \<lparr>ii_Mspid = ''OrgXMSP'', ii_Id = ''abcd''\<rparr>
      \<and> Role (demo_identity ''abcd'') = demo_role \<and> OU (demo_identity ''abcd'') = demo_ou"
    by (simp add: demo_identity_def)
  from T [THEN conjunct1] acc a
  have one: "Serialize demo_deps (d_id ?r) = Inr ''OrgXMSP/I:ab:cd''"
    by blast
  from T [THEN conjunct2] n b
  have two: "\<exists>r. Deserialize demo_deps demo_support ''OrgXMSP/I:ab:cd'' False 5 = Return (Inr r, 6)
          \<and> ident (d_id r) = ident (demo_identity ''abcd'')
          \<and> Role (d_id r) = Role (demo_identity ''abcd'')
          \<and> OU (d_id r) = OU (demo_identity ''abcd'')"
    by blast
  from acc one n two f show ?thesis
    by simp
qed

end
